theory Spec2Isabelle
  imports Complex_Main "HOL-Library.Sublist"
begin

section \<open>Python strings (ASCII)\<close>

text \<open>
  Keys and environment values are modelled as ASCII text: a \<open>string\<close> is a list of
  characters, and the built-in string methods the loader calls are written out for the
  ASCII range (letters \<open>A-Z\<close>/\<open>a-z\<close> are the only cased characters).
\<close>

definition isupper :: "char \<Rightarrow> bool" where
  "isupper c = (65 \<le> (of_char c :: nat) \<and> (of_char c :: nat) \<le> 90)"

definition islower :: "char \<Rightarrow> bool" where
  "islower c = (97 \<le> (of_char c :: nat) \<and> (of_char c :: nat) \<le> 122)"

definition isdigit :: "char \<Rightarrow> bool" where
  "isdigit c = (48 \<le> (of_char c :: nat) \<and> (of_char c :: nat) \<le> 57)"

definition iscased :: "char \<Rightarrow> bool" where
  "iscased c = (isupper c \<or> islower c)"

definition lower :: "char \<Rightarrow> char" where
  "lower c = (if isupper c then char_of ((of_char c :: nat) + 32) else c)"

definition upper :: "char \<Rightarrow> char" where
  "upper c = (if islower c then char_of ((of_char c :: nat) - 32) else c)"

text \<open>\<^verbatim>\<open>str.split(sep)\<close> for a one-character separator: always at least one component.\<close>

fun split :: "char \<Rightarrow> string \<Rightarrow> string list" where
  "split sep [] = [[]]"
| "split sep (c # cs) =
     (if c = sep then [] # split sep cs
      else (case split sep cs of w # ws \<Rightarrow> (c # w) # ws | [] \<Rightarrow> [[c]]))"

text \<open>
  \<^verbatim>\<open>str.title()\<close>: a character that follows a cased character is lowercased, any other
  character is uppercased (titlecased); uncased characters pass through both.
\<close>

fun title_from :: "bool \<Rightarrow> string \<Rightarrow> string" where
  "title_from previous_is_cased [] = []"
| "title_from previous_is_cased (c # cs) =
     (if previous_is_cased then lower c else upper c) # title_from (iscased c) cs"

definition title :: "string \<Rightarrow> string" where
  "title s = title_from False s"

text \<open>\<^verbatim>\<open>str.strip()\<close> and \<^verbatim>\<open>str.lower()\<close> on ASCII text.\<close>

definition isspace :: "char \<Rightarrow> bool" where
  "isspace c = ((9 \<le> (of_char c :: nat) \<and> (of_char c :: nat) \<le> 13) \<or>
                (28 \<le> (of_char c :: nat) \<and> (of_char c :: nat) \<le> 32))"

definition strip :: "string \<Rightarrow> string" where
  "strip s = rev (dropWhile isspace (rev (dropWhile isspace s)))"

definition lower_str :: "string \<Rightarrow> string" where
  "lower_str s = map lower s"

text \<open>\<^verbatim>\<open>needle in haystack\<close> on two strings: substring test.\<close>

fun contains_str :: "string \<Rightarrow> string \<Rightarrow> bool" where
  "contains_str needle [] = (needle = [])"
| "contains_str needle (c # cs) =
     (take (length needle) (c # cs) = needle \<or> contains_str needle cs)"

section \<open>Key-case transforms\<close>

text \<open>
  \<^verbatim>\<open>camel_to_snake\<close>: the loop over \<^verbatim>\<open>enumerate(name)\<close>; the flag says whether the
  index is 0.
\<close>

fun camel_to_snake_from :: "bool \<Rightarrow> string \<Rightarrow> string" where
  "camel_to_snake_from first [] = []"
| "camel_to_snake_from first (c # cs) =
     (if isupper c \<and> \<not> first then CHR ''_'' # lower c # camel_to_snake_from False cs
      else lower c # camel_to_snake_from False cs)"

definition camel_to_snake :: "string \<Rightarrow> string" where
  "camel_to_snake name = camel_to_snake_from True name"

definition snake_to_camel :: "string \<Rightarrow> string" where
  "snake_to_camel name =
     (case split (CHR ''_'') name of
        [] \<Rightarrow> []
      | c0 # components \<Rightarrow> c0 @ concat (map title components))"

section \<open>Raw documents\<close>

text \<open>
  What \<^verbatim>\<open>json.loads\<close> returns: a tree of dicts, lists and scalars. A dict is an
  association list in insertion order (its keys are distinct in every parsed document).
  No function of the loader looks inside a float.
\<close>

datatype json =
    JNull
  | JBool bool
  | JInt int
  | JFloat real
  | JStr string
  | JArr "json list"
  | JObj "(string \<times> json) list"

datatype py_error =
    JSONDecodeError     \<comment> \<open>subclass of ValueError\<close>
  | ValidationError     \<comment> \<open>pydantic's, subclass of ValueError\<close>
  | UnicodeDecodeError  \<comment> \<open>subclass of ValueError\<close>
  | ValueError
  | AttributeError
  | TypeError
  | KeyError
  | OSError             \<comment> \<open>PermissionError, IsADirectoryError, ...\<close>

text \<open>\<^verbatim>\<open>d[k] = v\<close>: an existing key keeps its position, a new key goes last.\<close>

fun dict_set :: "(string \<times> 'v) list \<Rightarrow> string \<Rightarrow> 'v \<Rightarrow> (string \<times> 'v) list" where
  "dict_set [] k v = [(k, v)]"
| "dict_set ((k', v') # kvs) k v =
     (if k' = k then (k', v) # kvs else (k', v') # dict_set kvs k v)"

text \<open>A dict comprehension: the items are stored one after the other.\<close>

definition dict_of_items :: "(string \<times> 'v) list \<Rightarrow> (string \<times> 'v) list" where
  "dict_of_items kvs = foldl (\<lambda>d kv. dict_set d (fst kv) (snd kv)) [] kvs"

fun convert_keys :: "json \<Rightarrow> json" where
  "convert_keys (JObj kvs) =
     JObj (dict_of_items (map (\<lambda>(k, v). (camel_to_snake k, convert_keys v)) kvs))"
| "convert_keys (JArr items) = JArr (map convert_keys items)"
| "convert_keys data = data"

fun convert_to_camel :: "json \<Rightarrow> json" where
  "convert_to_camel (JObj kvs) =
     JObj (dict_of_items (map (\<lambda>(k, v). (snake_to_camel k, convert_to_camel v)) kvs))"
| "convert_to_camel (JArr items) = JArr (map convert_to_camel items)"
| "convert_to_camel data = data"

section \<open>Migration\<close>

text \<open>\<^verbatim>\<open>obj.get(key, default)\<close>: only a dict has the method.\<close>

fun py_get :: "json \<Rightarrow> string \<Rightarrow> json \<Rightarrow> py_error + json" where
  "py_get (JObj d) k dflt = Inr (case map_of d k of Some v \<Rightarrow> v | None \<Rightarrow> dflt)"
| "py_get other k dflt = Inl AttributeError"

text \<open>
  \<^verbatim>\<open>key in obj\<close> for a string key: key lookup in a dict, element equality in a list,
  substring test in a string; the other scalars are not iterable.
\<close>

fun py_contains :: "string \<Rightarrow> json \<Rightarrow> py_error + bool" where
  "py_contains k (JObj d) = Inr (map_of d k \<noteq> None)"
| "py_contains k (JArr items) = Inr (JStr k \<in> set items)"
| "py_contains k (JStr s) = Inr (contains_str k s)"
| "py_contains k other = Inl TypeError"

text \<open>
  \<^verbatim>\<open>obj.pop(key)\<close> for a string key: the value and the object without the key.
  \<^verbatim>\<open>list.pop\<close> wants an integer; the scalars have no such method.
\<close>

fun py_pop :: "json \<Rightarrow> string \<Rightarrow> py_error + (json \<times> json)" where
  "py_pop (JObj d) k =
     (case map_of d k of
        Some v \<Rightarrow> Inr (v, JObj (filter (\<lambda>kv. fst kv \<noteq> k) d))
      | None \<Rightarrow> Inl KeyError)"
| "py_pop (JArr items) k = Inl TypeError"
| "py_pop other k = Inl AttributeError"

text \<open>\<^verbatim>\<open>obj[key] = value\<close> on a dict.\<close>

fun py_setitem :: "json \<Rightarrow> string \<Rightarrow> json \<Rightarrow> py_error + json" where
  "py_setitem (JObj d) k v = Inr (JObj (dict_set d k v))"
| "py_setitem other k v = Inl TypeError"

text \<open>
  \<^verbatim>\<open>_migrate_config\<close>. The source mutates the nested dicts in place; the pop and the
  store happen only when \<^verbatim>\<open>tools\<close> and \<^verbatim>\<open>exec_cfg\<close> are the dicts stored in
  \<^verbatim>\<open>data\<close> (the \<^verbatim>\<open>{}\<close> defaults never contain the key), so in the tree the changed
  children are stored back under their keys.
\<close>

definition migrate_config :: "json \<Rightarrow> py_error + json" where
  "migrate_config data =
     (case py_get data ''tools'' (JObj []) of
        Inl e \<Rightarrow> Inl e
      | Inr tools \<Rightarrow>
     (case py_get tools ''exec'' (JObj []) of
        Inl e \<Rightarrow> Inl e
      | Inr exec_cfg \<Rightarrow>
     (case py_contains ''restrictToWorkspace'' exec_cfg of
        Inl e \<Rightarrow> Inl e
      | Inr in_exec \<Rightarrow>
     (case (if in_exec then py_contains ''restrictToWorkspace'' tools else Inr True) of
        Inl e \<Rightarrow> Inl e
      | Inr in_tools \<Rightarrow>
         if in_exec \<and> \<not> in_tools then
           (case py_pop exec_cfg ''restrictToWorkspace'' of
              Inl e \<Rightarrow> Inl e
            | Inr (v, exec_cfg') \<Rightarrow>
           (case py_setitem tools ''exec'' exec_cfg' of
              Inl e \<Rightarrow> Inl e
            | Inr tools' \<Rightarrow>
           (case py_setitem tools' ''restrictToWorkspace'' v of
              Inl e \<Rightarrow> Inl e
            | Inr tools'' \<Rightarrow> py_setitem data ''tools'' tools'')))
         else Inr data))))"

text \<open>Reading a document along a path of keys.\<close>

fun get_path :: "json \<Rightarrow> string list \<Rightarrow> json option" where
  "get_path d [] = Some d"
| "get_path (JObj kvs) (k # p) =
     (case map_of kvs k of None \<Rightarrow> None | Some v \<Rightarrow> get_path v p)"
| "get_path other (k # p) = None"

definition is_mapping :: "json \<Rightarrow> bool" where
  "is_mapping d = (case d of JObj kvs \<Rightarrow> True | _ \<Rightarrow> False)"

text \<open>
  The shape \<^verbatim>\<open>_migrate_config\<close> is written for: a mapping in which \<^verbatim>\<open>tools\<close>, where
  present, is a mapping, and \<^verbatim>\<open>tools.exec\<close>, where present, is a mapping.
\<close>

definition migratable :: "json \<Rightarrow> bool" where
  "migratable d =
     (is_mapping d \<and>
      (case get_path d [''tools''] of None \<Rightarrow> True | Some t \<Rightarrow> is_mapping t) \<and>
      (case get_path d [''tools'', ''exec''] of None \<Rightarrow> True | Some e \<Rightarrow> is_mapping e))"

section \<open>The configuration object\<close>

text \<open>
  Modelled from the spec: the schema module (\<^verbatim>\<open>nanobot.config.schema\<close>) is not part of
  the sources. The records hold the sections and fields the loader reads or writes; a
  channel section is a section of \<^verbatim>\<open>config.channels\<close> with an \<^verbatim>\<open>enabled\<close> flag, and
  the sections other than \<^verbatim>\<open>telegram\<close> and \<^verbatim>\<open>whatsapp\<close> are kept in
  \<open>other_sections\<close>, name and \<^verbatim>\<open>enabled\<close> flag (the attributes of \<^verbatim>\<open>config.channels\<close> that are not sections are
  not modelled).
\<close>

record keyed_config =
  api_key :: string

record providers_config =
  groq :: keyed_config
  openrouter :: keyed_config
  openai :: keyed_config
  anthropic :: keyed_config
  deepseek :: keyed_config
  gemini :: keyed_config
  zhipu :: keyed_config

record agent_defaults =
  model :: string
  workspace :: string

record agents_config =
  defaults :: agent_defaults

record channel_config =
  enabled :: bool
  allow_from :: "string list"

record telegram_config = channel_config +
  token :: string

record channels_config =
  telegram :: telegram_config
  whatsapp :: channel_config
  other_sections :: "(string \<times> bool) list"

record web_tools_config =
  search :: keyed_config

record tools_config =
  web :: web_tools_config

record config =
  providers :: providers_config
  agents :: agents_config
  channels :: channels_config
  tools :: tools_config

section \<open>Environment overrides\<close>

type_synonym environ = "string \<Rightarrow> string option"

text \<open>\<^verbatim>\<open>a or b\<close> on two results of \<^verbatim>\<open>os.environ.get\<close>: \<^verbatim>\<open>None\<close> and the empty string are falsy.\<close>

definition py_or :: "string option \<Rightarrow> string option \<Rightarrow> string option" where
  "py_or a b = (case a of Some s \<Rightarrow> if s \<noteq> [] then a else b | None \<Rightarrow> b)"

text \<open>\<^verbatim>\<open>if name := value: body\<close>: the body runs with the value when it is truthy.\<close>

definition if_set :: "string option \<Rightarrow> (string \<Rightarrow> config \<Rightarrow> config) \<Rightarrow> config \<Rightarrow> config" where
  "if_set value body config =
     (case value of Some s \<Rightarrow> if s \<noteq> [] then body s config else config | None \<Rightarrow> config)"

text \<open>\<^verbatim>\<open>[u.strip() for u in s.split(",")]\<close>\<close>

definition split_strip :: "string \<Rightarrow> string list" where
  "split_strip s = map strip (split (CHR '','') s)"

text \<open>
  \<^verbatim>\<open>if hasattr(config.channels, c): getattr(config.channels, c).enabled = True\<close>
\<close>

fun enable_section :: "string \<Rightarrow> (string \<times> bool) list \<Rightarrow> (string \<times> bool) list" where
  "enable_section c [] = []"
| "enable_section c ((n, flag) # secs) =
     (if n = c then (n, True) # secs else (n, flag) # enable_section c secs)"

definition enable_channel :: "string \<Rightarrow> channels_config \<Rightarrow> channels_config" where
  "enable_channel c chans =
     (if c = ''telegram'' then chans\<lparr>telegram := (telegram chans)\<lparr>enabled := True\<rparr>\<rparr>
      else if c = ''whatsapp'' then chans\<lparr>whatsapp := (whatsapp chans)\<lparr>enabled := True\<rparr>\<rparr>
      else chans\<lparr>other_sections := enable_section c (other_sections chans)\<rparr>)"

text \<open>The blocks of \<^verbatim>\<open>_apply_env_overrides\<close>, in the order of the source.\<close>

definition override_groq :: "environ \<Rightarrow> config \<Rightarrow> config" where
  "override_groq env =
     if_set (py_or (env ''GROQ_API_KEY'') (env ''LITELLM_GROQ_API_KEY''))
       (\<lambda>key. providers_update (groq_update (api_key_update (\<lambda>_. key))))"

definition override_openrouter :: "environ \<Rightarrow> config \<Rightarrow> config" where
  "override_openrouter env =
     if_set (env ''OPENROUTER_API_KEY'')
       (\<lambda>key. providers_update (openrouter_update (api_key_update (\<lambda>_. key))))"

definition override_openai :: "environ \<Rightarrow> config \<Rightarrow> config" where
  "override_openai env =
     if_set (env ''OPENAI_API_KEY'')
       (\<lambda>key. providers_update (openai_update (api_key_update (\<lambda>_. key))))"

definition override_anthropic :: "environ \<Rightarrow> config \<Rightarrow> config" where
  "override_anthropic env =
     if_set (env ''ANTHROPIC_API_KEY'')
       (\<lambda>key. providers_update (anthropic_update (api_key_update (\<lambda>_. key))))"

definition override_deepseek :: "environ \<Rightarrow> config \<Rightarrow> config" where
  "override_deepseek env =
     if_set (env ''DEEPSEEK_API_KEY'')
       (\<lambda>key. providers_update (deepseek_update (api_key_update (\<lambda>_. key))))"

definition override_gemini :: "environ \<Rightarrow> config \<Rightarrow> config" where
  "override_gemini env =
     if_set (env ''GEMINI_API_KEY'')
       (\<lambda>key. providers_update (gemini_update (api_key_update (\<lambda>_. key))))"

definition override_zhipu :: "environ \<Rightarrow> config \<Rightarrow> config" where
  "override_zhipu env =
     if_set (py_or (env ''ZHIPU_API_KEY'') (env ''ZHIPUAI_API_KEY''))
       (\<lambda>key. providers_update (zhipu_update (api_key_update (\<lambda>_. key))))"

definition override_model :: "environ \<Rightarrow> config \<Rightarrow> config" where
  "override_model env =
     if_set (py_or (env ''AGENT_MODEL'') (env ''MODEL''))
       (\<lambda>m. agents_update (defaults_update (model_update (\<lambda>_. m))))"

definition override_workspace :: "environ \<Rightarrow> config \<Rightarrow> config" where
  "override_workspace env =
     if_set (env ''AGENT_WORKSPACE'')
       (\<lambda>w. agents_update (defaults_update (workspace_update (\<lambda>_. w))))"

text \<open>\<^verbatim>\<open>AGENT_ENGINE\<close>: the body is \<^verbatim>\<open>pass\<close>.\<close>

definition override_engine :: "environ \<Rightarrow> config \<Rightarrow> config" where
  "override_engine env = if_set (env ''AGENT_ENGINE'') (\<lambda>_ config. config)"

definition override_telegram_token :: "environ \<Rightarrow> config \<Rightarrow> config" where
  "override_telegram_token env =
     if_set (env ''TELEGRAM_TOKEN'')
       (\<lambda>tok. channels_update (telegram_update (enabled_update (\<lambda>_. True)))
              \<circ> channels_update (telegram_update (token_update (\<lambda>_. tok))))"

definition override_allowed_users :: "environ \<Rightarrow> config \<Rightarrow> config" where
  "override_allowed_users env =
     if_set (py_or (env ''ALLOWED_USERS'') (env ''TELEGRAM_ALLOWED_USERS''))
       (\<lambda>allowed. channels_update (telegram_update (allow_from_update (\<lambda>_. split_strip allowed))))"

definition override_whatsapp_enabled :: "environ \<Rightarrow> config \<Rightarrow> config" where
  "override_whatsapp_enabled env config =
     (if lower_str (case env ''WHATSAPP_ENABLED'' of Some s \<Rightarrow> s | None \<Rightarrow> []) = ''true''
      then channels_update (whatsapp_update (enabled_update (\<lambda>_. True))) config
      else config)"

definition override_whatsapp_numbers :: "environ \<Rightarrow> config \<Rightarrow> config" where
  "override_whatsapp_numbers env =
     if_set (env ''WHATSAPP_ALLOWED_NUMBERS'')
       (\<lambda>wa_allow. channels_update (whatsapp_update (allow_from_update (\<lambda>_. split_strip wa_allow))))"

definition override_channels :: "environ \<Rightarrow> config \<Rightarrow> config" where
  "override_channels env =
     if_set (env ''CHANNELS'')
       (\<lambda>channels_env. channels_update
          (fold enable_channel (map (\<lambda>c. lower_str (strip c)) (split (CHR '','') channels_env))))"

definition override_web_search :: "environ \<Rightarrow> config \<Rightarrow> config" where
  "override_web_search env =
     if_set (env ''ALEXZO_API_KEY'')
       (\<lambda>alexzo_key. tools_update (web_update (search_update (api_key_update (\<lambda>_. alexzo_key)))))"

definition apply_env_overrides :: "environ \<Rightarrow> config \<Rightarrow> config" where
  "apply_env_overrides env config =
     fold (\<lambda>block. block env)
       [override_groq, override_openrouter, override_openai, override_anthropic,
        override_deepseek, override_gemini, override_zhipu,
        override_model, override_workspace, override_engine,
        override_telegram_token, override_allowed_users,
        override_whatsapp_enabled, override_whatsapp_numbers,
        override_channels, override_web_search]
       config"

text \<open>
  The loop over \<^verbatim>\<open>CHANNELS\<close> can also raise. \<^verbatim>\<open>hasattr\<close> holds for every attribute of
  \<^verbatim>\<open>config.channels\<close>, a section or not, and on an attribute that is not a section the
  assignment of \<^verbatim>\<open>enabled\<close> fails with AttributeError. Every object has \<^verbatim>\<open>__doc__\<close>;
  which other such names there are (the methods of the class, for one) is for the schema
  to say: \<open>rejecting\<close> holds of them. \<open>apply_env_overrides\<close> above is the function run
  to its \<^verbatim>\<open>return\<close>; \<open>apply_env_overrides_checked\<close> is the function with this exception.
\<close>

definition has_section :: "string \<Rightarrow> channels_config \<Rightarrow> bool" where
  "has_section c chans =
     (c = ''telegram'' \<or> c = ''whatsapp'' \<or> map_of (other_sections chans) c \<noteq> None)"

fun enable_channels ::
  "(string \<Rightarrow> bool) \<Rightarrow> string list \<Rightarrow> channels_config \<Rightarrow> py_error + channels_config" where
  "enable_channels rejecting [] chans = Inr chans"
| "enable_channels rejecting (c # cs) chans =
     (if has_section c chans then enable_channels rejecting cs (enable_channel c chans)
      else if c = ''__doc__'' \<or> rejecting c then Inl AttributeError
      else enable_channels rejecting cs chans)"

definition override_channels_checked ::
  "(string \<Rightarrow> bool) \<Rightarrow> environ \<Rightarrow> config \<Rightarrow> py_error + config" where
  "override_channels_checked rejecting env config =
     (case env ''CHANNELS'' of
        None \<Rightarrow> Inr config
      | Some channels_env \<Rightarrow>
          if channels_env = [] then Inr config
          else (case enable_channels rejecting
                       (map (\<lambda>c. lower_str (strip c)) (split (CHR '','') channels_env))
                       (channels config) of
                  Inl e \<Rightarrow> Inl e
                | Inr chans \<Rightarrow> Inr (config\<lparr>channels := chans\<rparr>)))"

definition apply_env_overrides_checked ::
  "(string \<Rightarrow> bool) \<Rightarrow> environ \<Rightarrow> config \<Rightarrow> py_error + config" where
  "apply_env_overrides_checked rejecting env config =
     (case override_channels_checked rejecting env
             (fold (\<lambda>block. block env)
                [override_groq, override_openrouter, override_openai, override_anthropic,
                 override_deepseek, override_gemini, override_zhipu,
                 override_model, override_workspace, override_engine,
                 override_telegram_token, override_allowed_users,
                 override_whatsapp_enabled, override_whatsapp_numbers]
                config) of
        Inl e \<Rightarrow> Inl e
      | Inr config' \<Rightarrow> Inr (override_web_search env config'))"

text \<open>A variable that \<^verbatim>\<open>if name := os.environ.get(...)\<close> does not act on.\<close>

definition unset_or_empty :: "environ \<Rightarrow> string \<Rightarrow> bool" where
  "unset_or_empty env name = (env name = None \<or> env name = Some [])"

text \<open>Every variable \<^verbatim>\<open>_apply_env_overrides\<close> reads.\<close>

definition override_variables :: "string list" where
  "override_variables =
     [''GROQ_API_KEY'', ''LITELLM_GROQ_API_KEY'', ''OPENROUTER_API_KEY'', ''OPENAI_API_KEY'',
      ''ANTHROPIC_API_KEY'', ''DEEPSEEK_API_KEY'', ''GEMINI_API_KEY'', ''ZHIPU_API_KEY'',
      ''ZHIPUAI_API_KEY'', ''AGENT_MODEL'', ''MODEL'', ''AGENT_WORKSPACE'', ''AGENT_ENGINE'',
      ''TELEGRAM_TOKEN'', ''ALLOWED_USERS'', ''TELEGRAM_ALLOWED_USERS'', ''WHATSAPP_ENABLED'',
      ''WHATSAPP_ALLOWED_NUMBERS'', ''CHANNELS'', ''ALEXZO_API_KEY'']"

section \<open>Loading\<close>

type_synonym path = "string list"

text \<open>
  What the loader can find at a path: a file with text, a file whose bytes do not
  decode (\<^verbatim>\<open>f.read()\<close> raises UnicodeDecodeError), or something \<^verbatim>\<open>open\<close> refuses
  (a directory, a file without read permission: OSError).
\<close>

datatype file_node = Text string | Undecodable | Unopenable

type_synonym filesystem = "path \<Rightarrow> file_node option"

text \<open>
  The libraries and the schema the loader calls are parameters: \<^verbatim>\<open>json.loads\<close>,
  the text \<^verbatim>\<open>json.dump\<close> writes for a float, and of the schema
  \<^verbatim>\<open>Config.model_validate\<close>, \<^verbatim>\<open>Config()\<close> and the names of the attributes of
  \<^verbatim>\<open>config.channels\<close> that are not sections.
\<close>

record externals =
  json_loads :: "string \<Rightarrow> py_error + json"
  float_text :: "real \<Rightarrow> string"
  model_validate :: "json \<Rightarrow> py_error + config"
  rejecting_attribute :: "string \<Rightarrow> bool"
  Config_default :: config

definition get_config_path :: "path \<Rightarrow> path" where
  "get_config_path home = home @ [''.nanobot'', ''config.json'']"

text \<open>\<^verbatim>\<open>except (json.JSONDecodeError, ValueError)\<close>\<close>

definition caught :: "py_error \<Rightarrow> bool" where
  "caught e = (e = JSONDecodeError \<or> e = ValidationError \<or> e = UnicodeDecodeError \<or> e = ValueError)"

text \<open>
  The three statements both \<^verbatim>\<open>try\<close> blocks share: parse, \<^verbatim>\<open>_migrate_config\<close>,
  \<^verbatim>\<open>Config.model_validate(convert_keys(data))\<close>.
\<close>

definition load_document :: "externals \<Rightarrow> string \<Rightarrow> py_error + config" where
  "load_document ext text =
     (case json_loads ext text of
        Inl e \<Rightarrow> Inl e
      | Inr data \<Rightarrow>
     (case migrate_config data of
        Inl e \<Rightarrow> Inl e
      | Inr data' \<Rightarrow> model_validate ext (convert_keys data')))"

fun read_text :: "file_node \<Rightarrow> py_error + string" where
  "read_text (Text s) = Inr s"
| "read_text Undecodable = Inl UnicodeDecodeError"
| "read_text Unopenable = Inl OSError"

text \<open>Where a printed warning came from.\<close>

datatype source = NANOBOT_CONFIG | File path

type_synonym warnings = "(source \<times> py_error) list"

text \<open>Step 1: the \<^verbatim>\<open>NANOBOT_CONFIG\<close> variable.\<close>

definition load_from_env :: "externals \<Rightarrow> environ \<Rightarrow> py_error + (config option \<times> warnings)" where
  "load_from_env ext env =
     (case env ''NANOBOT_CONFIG'' of
        None \<Rightarrow> Inr (None, [])
      | Some env_config \<Rightarrow>
          if env_config = [] then Inr (None, [])
          else (case load_document ext env_config of
                  Inr config \<Rightarrow> Inr (Some config, [])
                | Inl e \<Rightarrow> if caught e then Inr (None, [(NANOBOT_CONFIG, e)]) else Inl e))"

text \<open>
  Step 2, one path: \<^verbatim>\<open>path.exists()\<close> and, for a path that exists, the body of the
  \<^verbatim>\<open>try\<close> block.
\<close>

definition attempt :: "externals \<Rightarrow> filesystem \<Rightarrow> path \<Rightarrow> (py_error + config) option" where
  "attempt ext fs path =
     (case fs path of
        None \<Rightarrow> None
      | Some node \<Rightarrow>
          Some (case read_text node of Inl e \<Rightarrow> Inl e | Inr text \<Rightarrow> load_document ext text))"

text \<open>Step 2: the loop over the paths, with \<^verbatim>\<open>break\<close> and \<^verbatim>\<open>continue\<close>.\<close>

fun try_paths :: "externals \<Rightarrow> filesystem \<Rightarrow> path list \<Rightarrow> py_error + (config option \<times> warnings)" where
  "try_paths ext fs [] = Inr (None, [])"
| "try_paths ext fs (path # paths) =
     (case attempt ext fs path of
        None \<Rightarrow> try_paths ext fs paths
      | Some (Inr config) \<Rightarrow> Inr (Some config, [])
      | Some (Inl e) \<Rightarrow>
          if caught e then
            (case try_paths ext fs paths of
               Inl e' \<Rightarrow> Inl e'
             | Inr (config, ws) \<Rightarrow> Inr (config, (File path, e) # ws))
          else Inl e)"

text \<open>The first path of a list at which a document loads, with the configuration.\<close>

fun first_loaded :: "externals \<Rightarrow> filesystem \<Rightarrow> path list \<Rightarrow> config option" where
  "first_loaded ext fs [] = None"
| "first_loaded ext fs (path # paths) =
     (case attempt ext fs path of
        Some (Inr config) \<Rightarrow> Some config
      | _ \<Rightarrow> first_loaded ext fs paths)"

definition candidate_paths :: "path \<Rightarrow> path option \<Rightarrow> path list" where
  "candidate_paths home config_path =
     (case config_path of
        Some p \<Rightarrow> [p]
      | None \<Rightarrow> [get_config_path home, [''config.json'']])"

definition load_config ::
  "externals \<Rightarrow> environ \<Rightarrow> filesystem \<Rightarrow> path \<Rightarrow> path option \<Rightarrow> py_error + (config \<times> warnings)" where
  "load_config ext env fs home config_path =
     (case load_from_env ext env of
        Inl e \<Rightarrow> Inl e
      | Inr (config, ws) \<Rightarrow>
     (case (if config = None then try_paths ext fs (candidate_paths home config_path)
            else Inr (config, [])) of
        Inl e \<Rightarrow> Inl e
      | Inr (config', ws') \<Rightarrow>
     (case apply_env_overrides_checked (rejecting_attribute ext) env
             (case config' of None \<Rightarrow> Config_default ext | Some c \<Rightarrow> c) of
        Inl e \<Rightarrow> Inl e
      | Inr config'' \<Rightarrow> Inr (config'', ws @ ws'))))"

section \<open>Saving\<close>

text \<open>
  The file system as \<^verbatim>\<open>save_config\<close> meets it: a tree of directories and files. The
  flag of a file says whether it may be written, the flag of a directory whether entries
  may be created in it. A path is the list of its components from the root of the tree.
\<close>

datatype tree = FileT bool string | DirT bool "(string \<times> tree) list"

fun lookup :: "tree \<Rightarrow> path \<Rightarrow> tree option" where
  "lookup t [] = Some t"
| "lookup (DirT w entries) (n # p) =
     (case map_of entries n of None \<Rightarrow> None | Some child \<Rightarrow> lookup child p)"
| "lookup (FileT w s) (n # p) = None"

definition is_directory :: "tree \<Rightarrow> path \<Rightarrow> bool" where
  "is_directory t p = (case lookup t p of Some (DirT w entries) \<Rightarrow> True | _ \<Rightarrow> False)"

text \<open>A chain of new directories, one inside the other, for the components of a path.\<close>

fun fresh_dirs :: "path \<Rightarrow> tree" where
  "fresh_dirs [] = DirT True []"
| "fresh_dirs (n # p) = DirT True [(n, fresh_dirs p)]"

text \<open>
  \<^verbatim>\<open>Path.mkdir(parents=..., exist_ok=...)\<close>, every failure an OSError: the path exists
  and \<^verbatim>\<open>exist_ok\<close> is false or it is a file; a component on the way is a file; a
  directory on the way is missing and \<^verbatim>\<open>parents\<close> is false; the directory in which the
  first missing one would be made does not allow it.
\<close>

fun mkdir :: "bool \<Rightarrow> bool \<Rightarrow> path \<Rightarrow> tree \<Rightarrow> py_error + tree" where
  "mkdir parents exist_ok [] (DirT w entries) =
     (if exist_ok then Inr (DirT w entries) else Inl OSError)"
| "mkdir parents exist_ok [] (FileT w s) = Inl OSError"
| "mkdir parents exist_ok (n # p) (FileT w s) = Inl OSError"
| "mkdir parents exist_ok (n # p) (DirT w entries) =
     (case map_of entries n of
        Some child \<Rightarrow>
          (case mkdir parents exist_ok p child of
             Inl e \<Rightarrow> Inl e
           | Inr child' \<Rightarrow> Inr (DirT w (dict_set entries n child')))
      | None \<Rightarrow>
          if p \<noteq> [] \<and> \<not> parents then Inl OSError
          else if \<not> w then Inl OSError
          else Inr (DirT w (entries @ [(n, fresh_dirs p)])))"

text \<open>
  \<^verbatim>\<open>open(path, "w")\<close>: an existing writable file is truncated, a missing one is made in
  its directory when that allows it; every failure is an OSError.
\<close>

fun open_w :: "path \<Rightarrow> tree \<Rightarrow> py_error + tree" where
  "open_w [] t = Inl OSError"
| "open_w (n # p) (FileT w s) = Inl OSError"
| "open_w [n] (DirT w entries) =
     (case map_of entries n of
        Some (FileT fw s) \<Rightarrow>
          if fw then Inr (DirT w (dict_set entries n (FileT fw []))) else Inl OSError
      | Some (DirT dw es) \<Rightarrow> Inl OSError
      | None \<Rightarrow> if w then Inr (DirT w (entries @ [(n, FileT True [])])) else Inl OSError)"
| "open_w (n # m # p) (DirT w entries) =
     (case map_of entries n of
        Some child \<Rightarrow>
          (case open_w (m # p) child of
             Inl e \<Rightarrow> Inl e
           | Inr child' \<Rightarrow> Inr (DirT w (dict_set entries n child')))
      | None \<Rightarrow> Inl OSError)"

text \<open>The write through the open file: the file at the path gets the text.\<close>

fun write_text :: "path \<Rightarrow> string \<Rightarrow> tree \<Rightarrow> py_error + tree" where
  "write_text [] text (FileT w s) = Inr (FileT w text)"
| "write_text [] text (DirT w entries) = Inl OSError"
| "write_text (n # p) text (FileT w s) = Inl OSError"
| "write_text (n # p) text (DirT w entries) =
     (case map_of entries n of
        Some child \<Rightarrow>
          (case write_text p text child of
             Inl e \<Rightarrow> Inl e
           | Inr child' \<Rightarrow> Inr (DirT w (dict_set entries n child')))
      | None \<Rightarrow> Inl OSError)"

text \<open>
  Modelled from the spec: \<^verbatim>\<open>config.model_dump()\<close> is a method of the schema, which is
  not part of the sources: the full field representation, defaulted fields included.
  Here it is the dump of every field of the records above.
\<close>

definition dump_keyed :: "keyed_config \<Rightarrow> json" where
  "dump_keyed k = JObj [(''api_key'', JStr (api_key k))]"

definition model_dump :: "config \<Rightarrow> json" where
  "model_dump c =
     JObj
      [(''providers'',
        JObj [(''groq'', dump_keyed (groq (providers c))),
              (''openrouter'', dump_keyed (openrouter (providers c))),
              (''openai'', dump_keyed (openai (providers c))),
              (''anthropic'', dump_keyed (anthropic (providers c))),
              (''deepseek'', dump_keyed (deepseek (providers c))),
              (''gemini'', dump_keyed (gemini (providers c))),
              (''zhipu'', dump_keyed (zhipu (providers c)))]),
       (''agents'',
        JObj [(''defaults'',
               JObj [(''model'', JStr (model (defaults (agents c)))),
                     (''workspace'', JStr (workspace (defaults (agents c))))])]),
       (''channels'',
        JObj ((''telegram'',
               JObj [(''enabled'', JBool (enabled (telegram (channels c)))),
                     (''allow_from'', JArr (map JStr (allow_from (telegram (channels c))))),
                     (''token'', JStr (token (telegram (channels c))))])
              # (''whatsapp'',
                 JObj [(''enabled'', JBool (enabled (whatsapp (channels c)))),
                       (''allow_from'', JArr (map JStr (allow_from (whatsapp (channels c)))))])
              # map (\<lambda>(n, flag). (n, JObj [(''enabled'', JBool flag)]))
                    (other_sections (channels c)))),
       (''tools'',
        JObj [(''web'', JObj [(''search'', dump_keyed (search (web (tools c))))])])]"

text \<open>
  \<^verbatim>\<open>json.dump(data, f, indent=...)\<close>, the text it writes. Strings are escaped as
  \<^verbatim>\<open>ensure_ascii\<close> does; the text of a float is a parameter.
\<close>

definition hex_digit :: "nat \<Rightarrow> char" where
  "hex_digit n = ''0123456789abcdef'' ! (n mod 16)"

definition escape_char :: "char \<Rightarrow> string" where
  "escape_char c =
     (if c = CHR 0x22 then [CHR 0x5C, CHR 0x22]
      else if c = CHR 0x5C then [CHR 0x5C, CHR 0x5C]
      else if c = CHR 0x0A then [CHR 0x5C, CHR ''n'']
      else if c = CHR 0x0D then [CHR 0x5C, CHR ''r'']
      else if c = CHR 0x09 then [CHR 0x5C, CHR ''t'']
      else if c = CHR 0x08 then [CHR 0x5C, CHR ''b'']
      else if c = CHR 0x0C then [CHR 0x5C, CHR ''f'']
      else if 32 \<le> (of_char c :: nat) \<and> (of_char c :: nat) \<le> 126 then [c]
      else [CHR 0x5C, CHR ''u'', CHR ''0'', CHR ''0'',
            hex_digit ((of_char c :: nat) div 16), hex_digit (of_char c :: nat)])"

definition encode_str :: "string \<Rightarrow> string" where
  "encode_str s = [CHR 0x22] @ concat (map escape_char s) @ [CHR 0x22]"

fun digits :: "nat \<Rightarrow> string" where
  "digits n = (if n < 10 then [hex_digit n] else digits (n div 10) @ [hex_digit (n mod 10)])"

definition encode_int :: "int \<Rightarrow> string" where
  "encode_int i = (if i < 0 then ''-'' @ digits (nat (- i)) else digits (nat i))"

fun join :: "string \<Rightarrow> string list \<Rightarrow> string" where
  "join sep [] = []"
| "join sep [x] = x"
| "join sep (x # y # ys) = x @ sep @ join sep (y # ys)"

definition newline_indent :: "nat option \<Rightarrow> nat \<Rightarrow> string" where
  "newline_indent indent level =
     (case indent of None \<Rightarrow> [] | Some n \<Rightarrow> CHR 0x0A # replicate (n * level) (CHR '' ''))"

definition item_separator :: "nat option \<Rightarrow> string" where
  "item_separator indent = (case indent of None \<Rightarrow> '', '' | Some n \<Rightarrow> '','')"

fun encode :: "nat option \<Rightarrow> (real \<Rightarrow> string) \<Rightarrow> nat \<Rightarrow> json \<Rightarrow> string" where
  "encode indent float_repr level JNull = ''null''"
| "encode indent float_repr level (JBool b) = (if b then ''true'' else ''false'')"
| "encode indent float_repr level (JInt i) = encode_int i"
| "encode indent float_repr level (JFloat x) = float_repr x"
| "encode indent float_repr level (JStr s) = encode_str s"
| "encode indent float_repr level (JArr items) =
     (if items = [] then ''[]''
      else ''['' @ newline_indent indent (Suc level)
           @ join (item_separator indent @ newline_indent indent (Suc level))
               (map (encode indent float_repr (Suc level)) items)
           @ newline_indent indent level @ '']'')"
| "encode indent float_repr level (JObj kvs) =
     (if kvs = [] then ''{}''
      else ''{'' @ newline_indent indent (Suc level)
           @ join (item_separator indent @ newline_indent indent (Suc level))
               (map (\<lambda>(k, v). encode_str k @ '': '' @ encode indent float_repr (Suc level) v) kvs)
           @ newline_indent indent level @ ''}'')"

definition json_dump :: "nat option \<Rightarrow> (real \<Rightarrow> string) \<Rightarrow> json \<Rightarrow> string" where
  "json_dump indent float_repr data = encode indent float_repr 0 data"

text \<open>\<^verbatim>\<open>path.parent\<close>\<close>

definition parent :: "path \<Rightarrow> path" where
  "parent p = butlast p"

text \<open>\<^verbatim>\<open>config_path or get_config_path()\<close>\<close>

definition target_path :: "path \<Rightarrow> path option \<Rightarrow> path" where
  "target_path home config_path =
     (case config_path of Some p \<Rightarrow> p | None \<Rightarrow> get_config_path home)"

definition save_config ::
  "externals \<Rightarrow> path \<Rightarrow> config \<Rightarrow> path option \<Rightarrow> tree \<Rightarrow> py_error + tree" where
  "save_config ext home config config_path fs =
     (let path = target_path home config_path in
      case mkdir True True (parent path) fs of
        Inl e \<Rightarrow> Inl e
      | Inr fs1 \<Rightarrow>
          (let data = model_dump config;
               data = convert_to_camel data in
           case open_w path fs1 of
             Inl e \<Rightarrow> Inl e
           | Inr fs2 \<Rightarrow> write_text path (json_dump (Some 2) (float_text ext) data) fs2))"

text \<open>
  The file operations of \<^verbatim>\<open>save_config\<close> one after the other: the parent directory
  made, the file opened, the text written.
\<close>

definition write_file :: "path \<Rightarrow> string \<Rightarrow> tree \<Rightarrow> py_error + tree" where
  "write_file path text fs =
     (case open_w path fs of Inl e \<Rightarrow> Inl e | Inr fs2 \<Rightarrow> write_text path text fs2)"

definition store :: "path \<Rightarrow> string \<Rightarrow> tree \<Rightarrow> py_error + tree" where
  "store path text fs =
     (case mkdir True True (parent path) fs of
        Inl e \<Rightarrow> Inl e
      | Inr fs1 \<Rightarrow> write_file path text fs1)"

text \<open>
  A location a file can be written to: the target is a writable file, or it is missing
  and the nearest directory that exists above it allows entries to be made; nothing on
  the way is a file, and the target is not a directory.
\<close>

fun writable_location :: "path \<Rightarrow> tree \<Rightarrow> bool" where
  "writable_location [] t = False"
| "writable_location (n # p) (FileT w s) = False"
| "writable_location [n] (DirT w entries) =
     (case map_of entries n of
        Some (FileT fw s) \<Rightarrow> fw
      | Some (DirT dw es) \<Rightarrow> False
      | None \<Rightarrow> w)"
| "writable_location (n # m # p) (DirT w entries) =
     (case map_of entries n of
        Some child \<Rightarrow> writable_location (m # p) child
      | None \<Rightarrow> w)"

text \<open>
  The writer's rule in the spec's words: every mapping key, at every depth, is replaced
  by its image; values keep their place.
\<close>

fun rename_keys :: "(string \<Rightarrow> string) \<Rightarrow> json \<Rightarrow> json" where
  "rename_keys f (JObj kvs) = JObj (map (\<lambda>(k, v). (f k, rename_keys f v)) kvs)"
| "rename_keys f (JArr items) = JArr (map (rename_keys f) items)"
| "rename_keys f data = data"

text \<open>No two keys of one mapping have the same image, at any depth.\<close>

fun collision_free :: "(string \<Rightarrow> string) \<Rightarrow> json \<Rightarrow> bool" where
  "collision_free f (JObj kvs) =
     (distinct (map (\<lambda>kv. f (fst kv)) kvs) \<and> list_all (\<lambda>kv. collision_free f (snd kv)) kvs)"
| "collision_free f (JArr items) = list_all (collision_free f) items"
| "collision_free f data = True"

section \<open>The BigQuery tool\<close>

text \<open>An instance of a subclass of \<^verbatim>\<open>Exception\<close>, with its \<^verbatim>\<open>str()\<close>.\<close>

datatype exception = Exception (str: string)

text \<open>
  The BigQuery client library, the file system and \<^verbatim>\<open>json.dumps\<close> (plain, and with
  \<^verbatim>\<open>default=str\<close>) are parameters; each call returns or raises an exception.
  \<open>query_rows\<close> is \<^verbatim>\<open>client.query(query).result()\<close> with each row as a dict,
  \<open>insert_rows_json\<close> takes the dataset id, the table id and the rows and returns the
  list of errors, \<open>list_datasets\<close> and \<open>list_tables\<close> return the list of ids, and
  \<open>format_errors\<close> is the text of the error list inside the f-string.
\<close>

record 'c bigquery_api =
  key_exists :: "string \<Rightarrow> bool"
  connect :: "string \<Rightarrow> exception + 'c"
  query_rows :: "'c \<Rightarrow> json \<Rightarrow> exception + json"
  insert_rows_json :: "'c \<Rightarrow> json \<Rightarrow> json \<Rightarrow> json \<Rightarrow> exception + json"
  list_datasets :: "'c \<Rightarrow> exception + json"
  list_tables :: "'c \<Rightarrow> json \<Rightarrow> exception + json"
  dumps :: "json \<Rightarrow> exception + string"
  dumps_default_str :: "json \<Rightarrow> exception + string"
  format_errors :: "json \<Rightarrow> string"

record 'c BigQueryTool =
  key_path :: string
  client :: "'c option"

definition get_client ::
  "'c bigquery_api \<Rightarrow> 'c BigQueryTool \<Rightarrow> (exception + 'c) \<times> 'c BigQueryTool" where
  "get_client api self =
     (case client self of
        Some c \<Rightarrow> (Inr c, self)
      | None \<Rightarrow>
          if \<not> key_exists api (key_path self)
          then (Inl (Exception (''BigQuery key not found at '' @ key_path self)), self)
          else (case connect api (key_path self) of
                  Inl e \<Rightarrow> (Inl e, self)
                | Inr c \<Rightarrow> (Inr c, self\<lparr>client := Some c\<rparr>)))"

text \<open>Truthiness of an argument value, and \<^verbatim>\<open>kwargs.get(name)\<close>.\<close>

fun truthy :: "json \<Rightarrow> bool" where
  "truthy JNull = False"
| "truthy (JBool b) = b"
| "truthy (JInt i) = (i \<noteq> 0)"
| "truthy (JFloat x) = (x \<noteq> 0)"
| "truthy (JStr s) = (s \<noteq> [])"
| "truthy (JArr items) = (items \<noteq> [])"
| "truthy (JObj kvs) = (kvs \<noteq> [])"

definition kwargs_get :: "(string \<Rightarrow> json option) \<Rightarrow> string \<Rightarrow> json" where
  "kwargs_get kwargs name = (case kwargs name of Some v \<Rightarrow> v | None \<Rightarrow> JNull)"

text \<open>The operations, after the client has been obtained.\<close>

definition run_operation ::
  "'c bigquery_api \<Rightarrow> 'c \<Rightarrow> string \<Rightarrow> (string \<Rightarrow> json option) \<Rightarrow> exception + string" where
  "run_operation api c operation kwargs =
     (if operation = ''query'' then
        (let query = kwargs_get kwargs ''query'' in
         if \<not> truthy query
         then Inr ''Error: 'query' parameter is required for query operation''
         else (case query_rows api c query of
                 Inl e \<Rightarrow> Inl e
               | Inr rows \<Rightarrow> dumps_default_str api rows))
      else if operation = ''insert'' then
        (let dataset_id = kwargs_get kwargs ''dataset_id'';
             table_id = kwargs_get kwargs ''table_id'';
             rows = kwargs_get kwargs ''rows'' in
         if \<not> list_all truthy [dataset_id, table_id, rows]
         then Inr ''Error: 'dataset_id', 'table_id', and 'rows' are required for insert operation''
         else (case insert_rows_json api c dataset_id table_id rows of
                 Inl e \<Rightarrow> Inl e
               | Inr errors \<Rightarrow>
                   if errors = JArr [] then Inr ''Success: Rows inserted''
                   else Inr (''Error inserting rows: '' @ format_errors api errors)))
      else if operation = ''list_datasets'' then
        (case list_datasets api c of
           Inl e \<Rightarrow> Inl e
         | Inr ids \<Rightarrow> dumps api ids)
      else if operation = ''list_tables'' then
        (let dataset_id = kwargs_get kwargs ''dataset_id'' in
         if \<not> truthy dataset_id
         then Inr ''Error: 'dataset_id' is required for list_tables operation''
         else (case list_tables api c dataset_id of
                 Inl e \<Rightarrow> Inl e
               | Inr ids \<Rightarrow> dumps api ids))
      else Inr (''Error: Unknown operation '' @ [CHR 0x27] @ operation @ [CHR 0x27]))"

text \<open>The body of the \<^verbatim>\<open>try\<close> block of \<^verbatim>\<open>execute\<close>.\<close>

definition execute_body ::
  "'c bigquery_api \<Rightarrow> 'c BigQueryTool \<Rightarrow> string \<Rightarrow> (string \<Rightarrow> json option)
     \<Rightarrow> (exception + string) \<times> 'c BigQueryTool" where
  "execute_body api self operation kwargs =
     (case get_client api self of
        (Inl e, self') \<Rightarrow> (Inl e, self')
      | (Inr c, self') \<Rightarrow> (run_operation api c operation kwargs, self'))"

text \<open>\<^verbatim>\<open>except Exception as e: return f"Error: {str(e)}"\<close>\<close>

definition execute ::
  "'c bigquery_api \<Rightarrow> 'c BigQueryTool \<Rightarrow> string \<Rightarrow> (string \<Rightarrow> json option)
     \<Rightarrow> (exception + string) \<times> 'c BigQueryTool" where
  "execute api self operation kwargs =
     (case execute_body api self operation kwargs of
        (Inl (Exception msg), self') \<Rightarrow> (Inr (''Error: '' @ msg), self')
      | (Inr text, self') \<Rightarrow> (Inr text, self'))"

definition missing_parameter :: "string \<Rightarrow> (string \<Rightarrow> json option) \<Rightarrow> bool" where
  "missing_parameter operation kwargs =
     ((operation = ''query'' \<and> \<not> truthy (kwargs_get kwargs ''query'')) \<or>
      (operation = ''insert'' \<and>
         (\<not> truthy (kwargs_get kwargs ''dataset_id'') \<or> \<not> truthy (kwargs_get kwargs ''table_id'')
          \<or> \<not> truthy (kwargs_get kwargs ''rows''))) \<or>
      (operation = ''list_tables'' \<and> \<not> truthy (kwargs_get kwargs ''dataset_id'')))"

definition known_operation :: "string \<Rightarrow> bool" where
  "known_operation operation =
     (operation \<in> set [''query'', ''insert'', ''list_datasets'', ''list_tables''])"

section \<open>Keys that survive the round trip\<close>

definition alnum :: "string \<Rightarrow> bool" where
  "alnum k = list_all (\<lambda>c. isupper c \<or> islower c \<or> isdigit c) k"

text \<open>Somewhere in the string a lowercase letter directly follows a digit.\<close>

fun lower_after_digit :: "string \<Rightarrow> bool" where
  "lower_after_digit (c # d # cs) = ((isdigit c \<and> islower d) \<or> lower_after_digit (d # cs))"
| "lower_after_digit cs = False"

definition starts_upper :: "string \<Rightarrow> bool" where
  "starts_upper k = (case k of [] \<Rightarrow> False | c # cs \<Rightarrow> isupper c)"

text \<open>The part of a key from its first uppercase letter on.\<close>

definition from_first_upper :: "string \<Rightarrow> string" where
  "from_first_upper k = dropWhile (\<lambda>c. \<not> isupper c) k"

text \<open>
  An internal (snake-form) name: lowercase letters, digits and underscores, not starting
  with an underscore.
\<close>

definition snake_name :: "string \<Rightarrow> bool" where
  "snake_name n =
     (list_all (\<lambda>c. islower c \<or> isdigit c \<or> c = CHR ''_'') n \<and>
      (case n of [] \<Rightarrow> True | c # cs \<Rightarrow> c \<noteq> CHR ''_''))"

text \<open>Two uppercase letters side by side.\<close>

fun adjacent_upper :: "string \<Rightarrow> bool" where
  "adjacent_upper (c # d # cs) = ((isupper c \<and> isupper d) \<or> adjacent_upper (d # cs))"
| "adjacent_upper cs = False"

section \<open>Sample values\<close>

definition example_config :: config where
  "example_config =
     \<lparr>providers =
        \<lparr>groq = \<lparr>api_key = ''g0''\<rparr>, openrouter = \<lparr>api_key = ''''\<rparr>, openai = \<lparr>api_key = ''''\<rparr>,
         anthropic = \<lparr>api_key = ''''\<rparr>, deepseek = \<lparr>api_key = ''''\<rparr>, gemini = \<lparr>api_key = ''''\<rparr>,
         zhipu = \<lparr>api_key = ''''\<rparr>\<rparr>,
      agents = \<lparr>defaults = \<lparr>model = ''some-model'', workspace = ''~/.nanobot/workspace''\<rparr>\<rparr>,
      channels =
        \<lparr>telegram = \<lparr>enabled = False, allow_from = [''alice''], token = ''old''\<rparr>,
         whatsapp = \<lparr>enabled = False, allow_from = []\<rparr>,
         other_sections = []\<rparr>,
      tools = \<lparr>web = \<lparr>search = \<lparr>api_key = ''''\<rparr>\<rparr>\<rparr>\<rparr>"

definition legacy_document :: json where
  "legacy_document =
     JObj [(''agents'', JObj [(''defaults'', JObj [(''model'', JStr ''some-model'')])]),
           (''tools'',
            JObj [(''exec'', JObj [(''timeout'', JInt 60), (''restrictToWorkspace'', JBool True)]),
                  (''web'', JObj [])])]"

text \<open>
  Sample externals: a parser that knows four texts, and a validator that wants a mapping
  and reads \<^verbatim>\<open>agents.defaults.model\<close> from it.
\<close>

definition example_loads :: "string \<Rightarrow> py_error + json" where
  \<open>example_loads text =
     (if text = ''{"tools": 5}'' then Inr (JObj [(''tools'', JInt 5)])
      else if text = ''[]'' then Inr (JArr [])
      else if text = ''{}'' then Inr (JObj [])
      else if text = ''{"agents": {"defaults": {"model": "from-cwd"}}}''
        then Inr (JObj [(''agents'', JObj [(''defaults'', JObj [(''model'', JStr ''from-cwd'')])])])
      else Inl JSONDecodeError)\<close>

definition example_validate :: "json \<Rightarrow> py_error + config" where
  "example_validate d =
     (if is_mapping d then
        (case get_path d [''agents'', ''defaults'', ''model''] of
           None \<Rightarrow> Inr example_config
         | Some (JStr m) \<Rightarrow> Inr (example_config\<lparr>agents := \<lparr>defaults = \<lparr>model = m, workspace = ''w''\<rparr>\<rparr>\<rparr>)
         | Some other \<Rightarrow> Inl ValidationError)
      else Inl ValidationError)"

definition example_ext :: externals where
  "example_ext =
     \<lparr>json_loads = example_loads,
      float_text = (\<lambda>x. ''0.0''),
      model_validate = example_validate,
      rejecting_attribute = (\<lambda>c. c = ''model_dump''),
      Config_default = example_config\<rparr>"

definition example_home :: path where
  "example_home = [''home'', ''user'']"

definition example_fs :: filesystem where
  \<open>example_fs =
     [get_config_path example_home \<mapsto> Text ''{oops'',
      [''config.json''] \<mapsto> Text ''{"agents": {"defaults": {"model": "from-cwd"}}}'']\<close>

definition from_cwd_config :: config where
  "from_cwd_config =
     example_config\<lparr>agents := \<lparr>defaults = \<lparr>model = ''from-cwd'', workspace = ''w''\<rparr>\<rparr>\<rparr>"

text \<open>
  A sample tree: an empty home directory, and a directory in which nothing can be made.
\<close>

definition example_tree :: tree where
  "example_tree =
     DirT True [(''home'', DirT True [(''user'', DirT True [])]), (''readonly'', DirT False [])]"

text \<open>
  The text \<^verbatim>\<open>json.dumps(data, indent=2)\<close> gives for the camelCase dump of
  \<open>example_config\<close>.
\<close>

definition example_text :: string where
  \<open>example_text =
       ''{'' @ [CHR 0x0A] @
       ''  "providers": {'' @ [CHR 0x0A] @
       ''    "groq": {'' @ [CHR 0x0A] @
       ''      "apiKey": "g0"'' @ [CHR 0x0A] @
       ''    },'' @ [CHR 0x0A] @
       ''    "openrouter": {'' @ [CHR 0x0A] @
       ''      "apiKey": ""'' @ [CHR 0x0A] @
       ''    },'' @ [CHR 0x0A] @
       ''    "openai": {'' @ [CHR 0x0A] @
       ''      "apiKey": ""'' @ [CHR 0x0A] @
       ''    },'' @ [CHR 0x0A] @
       ''    "anthropic": {'' @ [CHR 0x0A] @
       ''      "apiKey": ""'' @ [CHR 0x0A] @
       ''    },'' @ [CHR 0x0A] @
       ''    "deepseek": {'' @ [CHR 0x0A] @
       ''      "apiKey": ""'' @ [CHR 0x0A] @
       ''    },'' @ [CHR 0x0A] @
       ''    "gemini": {'' @ [CHR 0x0A] @
       ''      "apiKey": ""'' @ [CHR 0x0A] @
       ''    },'' @ [CHR 0x0A] @
       ''    "zhipu": {'' @ [CHR 0x0A] @
       ''      "apiKey": ""'' @ [CHR 0x0A] @
       ''    }'' @ [CHR 0x0A] @
       ''  },'' @ [CHR 0x0A] @
       ''  "agents": {'' @ [CHR 0x0A] @
       ''    "defaults": {'' @ [CHR 0x0A] @
       ''      "model": "some-model",'' @ [CHR 0x0A] @
       ''      "workspace": "~/.nanobot/workspace"'' @ [CHR 0x0A] @
       ''    }'' @ [CHR 0x0A] @
       ''  },'' @ [CHR 0x0A] @
       ''  "channels": {'' @ [CHR 0x0A] @
       ''    "telegram": {'' @ [CHR 0x0A] @
       ''      "enabled": false,'' @ [CHR 0x0A] @
       ''      "allowFrom": ['' @ [CHR 0x0A] @
       ''        "alice"'' @ [CHR 0x0A] @
       ''      ],'' @ [CHR 0x0A] @
       ''      "token": "old"'' @ [CHR 0x0A] @
       ''    },'' @ [CHR 0x0A] @
       ''    "whatsapp": {'' @ [CHR 0x0A] @
       ''      "enabled": false,'' @ [CHR 0x0A] @
       ''      "allowFrom": []'' @ [CHR 0x0A] @
       ''    }'' @ [CHR 0x0A] @
       ''  },'' @ [CHR 0x0A] @
       ''  "tools": {'' @ [CHR 0x0A] @
       ''    "web": {'' @ [CHR 0x0A] @
       ''      "search": {'' @ [CHR 0x0A] @
       ''        "apiKey": ""'' @ [CHR 0x0A] @
       ''      }'' @ [CHR 0x0A] @
       ''    }'' @ [CHR 0x0A] @
       ''  }'' @ [CHR 0x0A] @
       ''}''\<close>

text \<open>Sample BigQuery set-ups: no key file; and a connected client whose calls fail.\<close>

definition example_api :: "unit bigquery_api" where
  "example_api =
     \<lparr>key_exists = (\<lambda>p. False),
      connect = (\<lambda>p. Inl (Exception ''no credentials'')),
      query_rows = (\<lambda>c q. Inl (Exception ''400 Syntax error'')),
      insert_rows_json = (\<lambda>c d t rows. Inr (JArr [])),
      list_datasets = (\<lambda>c. Inr (JArr [])),
      list_tables = (\<lambda>c d. Inr (JArr [])),
      dumps = (\<lambda>d. Inr ''[]''),
      dumps_default_str = (\<lambda>d. Inr ''[]''),
      format_errors = (\<lambda>d. ''[]'')\<rparr>"

definition example_tool :: "unit BigQueryTool" where
  "example_tool = \<lparr>key_path = ''/home/user/.nanobot/bigquery-key.json'', client = None\<rparr>"

definition connected_tool :: "unit BigQueryTool" where
  "connected_tool = \<lparr>key_path = ''/home/user/.nanobot/bigquery-key.json'', client = Some ()\<rparr>"

definition broken_home_fs :: filesystem where
  \<open>broken_home_fs =
     [example_home @ [''.nanobot'', ''config.json''] \<mapsto> Text ''{"tools": 5}'',
      [''config.json''] \<mapsto> Text ''{"agents": {"defaults": {"model": "from-cwd"}}}'']\<close>

section \<open>Properties of the string functions\<close>

lemma upper_cases: "isupper c \<Longrightarrow> \<not> islower c \<and> \<not> isdigit c \<and> c \<noteq> CHR ''_'' \<and> iscased c"
  by (auto simp: isupper_def islower_def isdigit_def iscased_def)

lemma lower_cases: "islower c \<Longrightarrow> \<not> isupper c \<and> \<not> isdigit c \<and> c \<noteq> CHR ''_'' \<and> iscased c"
  by (auto simp: isupper_def islower_def isdigit_def iscased_def)

lemma digit_cases: "isdigit c \<Longrightarrow> \<not> isupper c \<and> \<not> islower c \<and> c \<noteq> CHR ''_'' \<and> \<not> iscased c"
  by (auto simp: isupper_def islower_def isdigit_def iscased_def)

lemma of_char_lower: "isupper c \<Longrightarrow> (of_char (lower c) :: nat) = of_char c + 32"
  by (simp add: lower_def isupper_def)

lemma of_char_upper: "islower c \<Longrightarrow> (of_char (upper c) :: nat) = of_char c - 32"
proof -
  assume l: "islower c"
  define n where "n = (of_char c :: nat)"
  from l have "n \<le> 122" by (simp add: islower_def n_def)
  then have "n - 32 < 256" by arith
  then have "(n - 32) mod 256 = n - 32" by simp
  with l show ?thesis by (simp add: upper_def n_def)
qed

lemma islower_lower: "isupper c \<Longrightarrow> islower (lower c)"
  using of_char_lower [of c] by (simp add: islower_def isupper_def)

lemma isupper_upper: "islower c \<Longrightarrow> isupper (upper c)"
  using of_char_upper [of c] by (simp add: islower_def isupper_def) arith

lemma upper_lower: "isupper c \<Longrightarrow> upper (lower c) = c"
proof -
  assume u: "isupper c"
  have "(of_char (upper (lower c)) :: nat) = of_char (lower c) - 32"
    by (rule of_char_upper) (rule islower_lower [OF u])
  also have "\<dots> = of_char c" by (simp add: of_char_lower [OF u])
  finally show ?thesis by simp
qed

lemma upper_neq: "islower c \<Longrightarrow> upper c \<noteq> c"
  using isupper_upper [of c] lower_cases [of c] by auto

lemma lower_neq: "isupper c \<Longrightarrow> lower c \<noteq> c"
  using islower_lower [of c] upper_cases [of c] by auto

lemma lower_nonupper: "\<not> isupper c \<Longrightarrow> lower c = c"
  by (simp add: lower_def)

lemma upper_nonlower: "\<not> islower c \<Longrightarrow> upper c = c"
  by (simp add: upper_def)

lemma split_nonempty: "split sep s \<noteq> []"
  by (induction s) (auto split: list.splits)

lemma split_Cons_other:
  "c \<noteq> sep \<Longrightarrow> split sep (c # cs) = (c # hd (split sep cs)) # tl (split sep cs)"
  using split_nonempty [of sep cs] by (cases "split sep cs") auto

lemma split_Cons_sep: "split sep (sep # cs) = [] # split sep cs"
  by simp

declare split.simps(2) [simp del]


lemma lad_Cons:
  "lower_after_digit (c # cs) = ((isdigit c \<and> cs \<noteq> [] \<and> islower (hd cs)) \<or> lower_after_digit cs)"
  by (cases cs) auto

lemma alnum_Cons: "alnum (c # cs) = ((isupper c \<or> islower c \<or> isdigit c) \<and> alnum cs)"
  by (simp add: alnum_def)

lemma title_Cons: "title (c # cs) = upper c # title_from (iscased c) cs"
  by (simp add: title_def)

lemma tail_round_trip:
  "alnum cs \<Longrightarrow>
   (title_from b (hd (split (CHR ''_'') (camel_to_snake_from False cs)))
      @ concat (map title (tl (split (CHR ''_'') (camel_to_snake_from False cs)))) = cs)
   = (\<not> lower_after_digit cs \<and> (cs \<noteq> [] \<and> islower (hd cs) \<longrightarrow> b))"
proof (induction cs arbitrary: b)
  case Nil
  then show ?case by simp
next
  case (Cons c cs)
  from Cons.prems have cs: "alnum cs" and c: "isupper c \<or> islower c \<or> isdigit c"
    by (simp_all add: alnum_Cons)
  note IH = Cons.IH [OF cs]
  from c consider (U) "isupper c" | (L) "islower c" | (D) "isdigit c" by blast
  then show ?case
  proof cases
    case U
    have "lower c \<noteq> CHR ''_''" using islower_lower [OF U] lower_cases by blast
    then show ?thesis
      using U upper_cases [of c] IH [of True]
      by (simp add: split_Cons_sep split_Cons_other title_Cons upper_lower islower_lower lower_cases lad_Cons)
  next
    case L
    then show ?thesis
      using lower_cases [of c] IH [of True] upper_neq [of c]
      by (auto simp add: split_Cons_other lower_nonupper lad_Cons)
  next
    case D
    then show ?thesis
      using digit_cases [of c] IH [of False]
      by (auto simp add: split_Cons_other lower_nonupper upper_nonlower lad_Cons)
  qed
qed

lemma head_round_trip:
  "alnum cs \<Longrightarrow>
   (hd (split (CHR ''_'') (camel_to_snake_from False cs))
      @ concat (map title (tl (split (CHR ''_'') (camel_to_snake_from False cs)))) = cs)
   = (\<not> lower_after_digit (from_first_upper cs))"
proof (induction cs)
  case Nil
  then show ?case by (simp add: from_first_upper_def)
next
  case (Cons c cs)
  from Cons.prems have cs: "alnum cs" and c: "isupper c \<or> islower c \<or> isdigit c"
    by (simp_all add: alnum_Cons)
  show ?case
  proof (cases "isupper c")
    case True
    have "lower c \<noteq> CHR ''_''" using islower_lower [OF True] lower_cases by blast
    then show ?thesis
      using True upper_cases [of c] tail_round_trip [OF cs, of True]
      by (simp add: split_Cons_sep split_Cons_other title_Cons upper_lower islower_lower lower_cases lad_Cons
          from_first_upper_def)
  next
    case False
    with c have "c \<noteq> CHR ''_''" using lower_cases digit_cases by blast
    then show ?thesis
      using False Cons.IH [OF cs]
      by (simp add: split_Cons_other lower_nonupper from_first_upper_def)
  qed
qed

lemma round_trip_iff:
  assumes "alnum k"
  shows "(snake_to_camel (camel_to_snake k) = k)
         = (\<not> starts_upper k \<and> \<not> lower_after_digit (from_first_upper k))"
proof (cases k)
  case Nil
  then show ?thesis
    by (simp add: snake_to_camel_def camel_to_snake_def starts_upper_def from_first_upper_def)
next
  case (Cons c cs)
  from assms Cons have cs: "alnum cs" and c: "isupper c \<or> islower c \<or> isdigit c"
    by (simp_all add: alnum_Cons)
  have ne: "lower c \<noteq> CHR ''_''"
    using c islower_lower [of c] lower_cases [of "lower c"] lower_cases [of c] digit_cases [of c]
      lower_nonupper [of c] by metis
  have "snake_to_camel (camel_to_snake k)
        = lower c # (hd (split (CHR ''_'') (camel_to_snake_from False cs))
            @ concat (map title (tl (split (CHR ''_'') (camel_to_snake_from False cs)))))"
    using ne by (simp add: Cons snake_to_camel_def camel_to_snake_def split_Cons_other)
  then show ?thesis
    using head_round_trip [OF cs] lower_neq [of c] lower_nonupper [of c]
    by (auto simp add: Cons starts_upper_def from_first_upper_def)
qed


lemma lad_append:
  "lower_after_digit (a @ b) =
     (lower_after_digit a \<or> lower_after_digit b \<or>
      (a \<noteq> [] \<and> b \<noteq> [] \<and> isdigit (last a) \<and> islower (hd b)))"
proof (induction a)
  case Nil
  then show ?case by simp
next
  case (Cons c a)
  then show ?case by (cases a) (auto simp add: lad_Cons)
qed

lemma alnum_append: "alnum (a @ b) = (alnum a \<and> alnum b)"
  by (simp add: alnum_def)

lemma split_chars:
  "w \<in> set (split sep s) \<Longrightarrow> x \<in> set w \<Longrightarrow> x \<in> set s \<and> x \<noteq> sep"
proof (induction s arbitrary: w)
  case Nil
  then show ?case by simp
next
  case (Cons c s)
  show ?case
  proof (cases "c = sep")
    case True
    with Cons show ?thesis by (auto simp add: split_Cons_sep)
  next
    case False
    have ne: "split sep s \<noteq> []" by (rule split_nonempty)
    from Cons.prems(1) False
    consider "w = c # hd (split sep s)" | "w \<in> set (tl (split sep s))"
      by (auto simp add: split_Cons_other)
    then show ?thesis
    proof cases
      case 1
      with Cons.prems(2) have "x = c \<or> x \<in> set (hd (split sep s))" by auto
      then show ?thesis
        using False Cons.IH [of "hd (split sep s)"] ne by auto
    next
      case 2
      then have "w \<in> set (split sep s)" using ne by (meson list.set_sel(2))
      then show ?thesis using Cons.IH [of w] Cons.prems(2) by auto
    qed
  qed
qed

lemma title_from_props:
  "\<forall>c\<in>set w. islower c \<or> isdigit c \<Longrightarrow>
   alnum (title_from b w) \<and> \<not> lower_after_digit (title_from b w) \<and>
   (title_from b w \<noteq> [] \<and> islower (hd (title_from b w)) \<longrightarrow> b)"
proof (induction w arbitrary: b)
  case Nil
  then show ?case by (simp add: alnum_def)
next
  case (Cons c w)
  have c: "islower c \<or> isdigit c" using Cons.prems by simp
  have w: "\<forall>c\<in>set w. islower c \<or> isdigit c" using Cons.prems by simp
  note IH = Cons.IH [OF w]
  from c show ?case
  proof
    assume L: "islower c"
    then show ?thesis
      using IH [of True] lower_cases [of c] isupper_upper [of c] upper_cases [of "upper c"]
      by (auto simp add: alnum_Cons lad_Cons lower_nonupper)
  next
    assume D: "isdigit c"
    then show ?thesis
      using IH [of False] digit_cases [of c]
      by (auto simp add: alnum_Cons lad_Cons lower_nonupper upper_nonlower)
  qed
qed

lemma concat_title_props:
  "\<forall>w\<in>set ws. \<forall>c\<in>set w. islower c \<or> isdigit c \<Longrightarrow>
   alnum (concat (map title ws)) \<and> \<not> lower_after_digit (concat (map title ws)) \<and>
   (concat (map title ws) \<noteq> [] \<longrightarrow> \<not> islower (hd (concat (map title ws))))"
proof (induction ws)
  case Nil
  then show ?case by (simp add: alnum_def)
next
  case (Cons w ws)
  have t: "alnum (title w) \<and> \<not> lower_after_digit (title w) \<and>
           (title w \<noteq> [] \<longrightarrow> \<not> islower (hd (title w)))"
    using title_from_props [of w False] Cons.prems by (auto simp add: title_def)
  have r: "alnum (concat (map title ws)) \<and> \<not> lower_after_digit (concat (map title ws)) \<and>
   (concat (map title ws) \<noteq> [] \<longrightarrow> \<not> islower (hd (concat (map title ws))))"
    using Cons.IH Cons.prems by simp
  from t r show ?case
    by (auto simp add: alnum_append lad_append hd_append)
qed

lemma lad_dropWhile: "\<not> lower_after_digit s \<Longrightarrow> \<not> lower_after_digit (dropWhile P s)"
proof -
  assume a: "\<not> lower_after_digit s"
  have "s = takeWhile P s @ dropWhile P s" by simp
  then have "\<not> lower_after_digit (takeWhile P s @ dropWhile P s)" using a by simp
  then show ?thesis unfolding lad_append by blast
qed

lemma wire_key_props:
  assumes "snake_name n"
  shows "alnum (snake_to_camel n) \<and> \<not> starts_upper (snake_to_camel n) \<and>
         \<not> lower_after_digit (from_first_upper (snake_to_camel n))"
proof (cases n)
  case Nil
  then show ?thesis
    by (simp add: snake_to_camel_def alnum_def starts_upper_def from_first_upper_def)
next
  case (Cons c cs)
  with assms have cu: "c \<noteq> CHR ''_''"
    and chars: "\<And>x. x \<in> set n \<Longrightarrow> islower x \<or> isdigit x \<or> x = CHR ''_''"
    by (auto simp add: snake_name_def list_all_iff)
  define c0 where "c0 = c # hd (split (CHR ''_'') cs)"
  define ws where "ws = tl (split (CHR ''_'') cs)"
  have sp: "split (CHR ''_'') n = c0 # ws"
    using cu by (simp add: Cons split_Cons_other c0_def ws_def)
  have comp: "\<forall>w\<in>set (c0 # ws). \<forall>x\<in>set w. islower x \<or> isdigit x"
    using split_chars [of _ "CHR ''_''" n] chars unfolding sp by blast
  have k: "snake_to_camel n = c0 @ concat (map title ws)"
    by (simp add: snake_to_camel_def sp)
  have c0: "\<And>x. x \<in> set c0 \<Longrightarrow> \<not> isupper x" "alnum c0"
    using comp lower_cases digit_cases by (auto simp add: alnum_def list_all_iff)
  have rest: "alnum (concat (map title ws)) \<and> \<not> lower_after_digit (concat (map title ws))"
    using concat_title_props [of ws] comp by simp
  have "from_first_upper (snake_to_camel n) = from_first_upper (concat (map title ws))"
    unfolding k from_first_upper_def using c0(1) by (simp add: dropWhile_append2)
  moreover have "\<not> starts_upper (snake_to_camel n)"
    using c0(1) [of c] by (simp add: k starts_upper_def c0_def)
  ultimately show ?thesis
    using rest c0(2) lad_dropWhile [of "concat (map title ws)"]
    by (simp add: k alnum_append from_first_upper_def)
qed

section \<open>Key-case round trip\<close>

text \<open>
  C3, as stated, fails: \<open>Foo\<close> and \<open>aB1c\<close> are made of ASCII letters and digits and have
  no two adjacent uppercase letters, \<open>Foo\<close> is moreover an output of \<open>snake_to_camel\<close>,
  and neither comes back from \<open>camel_to_snake\<close> followed by \<open>snake_to_camel\<close>: the
  first character is lowercased and never restored, and \<open>title\<close> capitalises a letter
  that follows a digit.
\<close>

theorem key_round_trip_counterexample:
  "alnum ''Foo'' \<and> \<not> adjacent_upper ''Foo'' \<and> snake_to_camel ''Foo'' = ''Foo'' \<and>
   snake_to_camel (camel_to_snake ''Foo'') \<noteq> ''Foo'' \<and>
   alnum ''aB1c'' \<and> \<not> adjacent_upper ''aB1c'' \<and>
   snake_to_camel (camel_to_snake ''aB1c'') \<noteq> ''aB1c''"
  by code_simp

text \<open>
  C3, amended: a key of ASCII letters and digits comes back unchanged from
  \<open>camel_to_snake\<close> followed by \<open>snake_to_camel\<close> exactly when it does not begin with an
  uppercase letter and, from its first uppercase letter on, no lowercase letter directly
  follows a digit (adjacent uppercase letters do no harm). Every key that
  \<open>snake_to_camel\<close> makes from an internal name (lowercase letters, digits and
  underscores, not beginning with an underscore) comes back unchanged.
\<close>

theorem key_round_trip:
  "(alnum k \<longrightarrow>
      (snake_to_camel (camel_to_snake k) = k)
      = (\<not> starts_upper k \<and> \<not> lower_after_digit (from_first_upper k))) \<and>
   (snake_name n \<longrightarrow>
      snake_to_camel (camel_to_snake (snake_to_camel n)) = snake_to_camel n)"
proof (intro conjI impI)
  assume "alnum k"
  then show "(snake_to_camel (camel_to_snake k) = k)
      = (\<not> starts_upper k \<and> \<not> lower_after_digit (from_first_upper k))"
    by (rule round_trip_iff)
next
  assume "snake_name n"
  then have "alnum (snake_to_camel n) \<and> \<not> starts_upper (snake_to_camel n) \<and>
         \<not> lower_after_digit (from_first_upper (snake_to_camel n))"
    by (rule wire_key_props)
  then show "snake_to_camel (camel_to_snake (snake_to_camel n)) = snake_to_camel n"
    using round_trip_iff [of "snake_to_camel n"] by blast
qed

theorem key_round_trip_witness:
  "alnum ''fooBar9'' \<and> \<not> starts_upper ''fooBar9'' \<and>
   \<not> lower_after_digit (from_first_upper ''fooBar9'') \<and>
   snake_to_camel (camel_to_snake ''fooBar9'') = ''fooBar9'' \<and>
   snake_name ''api_key'' \<and>
   snake_to_camel (camel_to_snake (snake_to_camel ''api_key'')) = snake_to_camel ''api_key''"
proof -
  have a: "alnum ''fooBar9''" by code_simp
  have b: "\<not> starts_upper ''fooBar9'' \<and> \<not> lower_after_digit (from_first_upper ''fooBar9'')"
    by code_simp
  have c: "snake_name ''api_key''" by code_simp
  from a b c key_round_trip [of "''fooBar9''" "''api_key''"] show ?thesis by blast
qed

section \<open>Key collisions\<close>

lemma camel_to_snake_fooBar: "camel_to_snake ''fooBar'' = ''foo_bar''"
  by code_simp

lemma camel_to_snake_FooBar: "camel_to_snake ''FooBar'' = ''foo_bar''"
  by code_simp

text \<open>
  C10: \<open>camel_to_snake\<close> is not injective: the distinct keys \<open>fooBar\<close> and \<open>FooBar\<close> both
  become \<open>foo_bar\<close>, and \<open>convert_keys\<close> on a mapping with both keys returns a mapping
  with the single key \<open>foo_bar\<close>, holding the converted value of the later key only.
\<close>

theorem camel_to_snake_not_injective:
  "camel_to_snake ''fooBar'' = ''foo_bar'' \<and> camel_to_snake ''FooBar'' = ''foo_bar'' \<and>
   \<not> inj camel_to_snake \<and>
   convert_keys (JObj [(''fooBar'', v), (''FooBar'', w)]) = JObj [(''foo_bar'', convert_keys w)] \<and>
   convert_keys (JObj [(''FooBar'', w), (''fooBar'', v)]) = JObj [(''foo_bar'', convert_keys v)]"
proof -
  have "\<not> inj camel_to_snake"
  proof
    assume "inj camel_to_snake"
    then have "''fooBar'' = ''FooBar''"
      by (rule injD) (simp add: camel_to_snake_fooBar camel_to_snake_FooBar)
    then show False by simp
  qed
  moreover have "convert_keys (JObj [(''fooBar'', v), (''FooBar'', w)])
                 = JObj [(''foo_bar'', convert_keys w)]"
    by (simp add: dict_of_items_def camel_to_snake_fooBar camel_to_snake_FooBar)
  moreover have "convert_keys (JObj [(''FooBar'', w), (''fooBar'', v)])
                 = JObj [(''foo_bar'', convert_keys v)]"
    by (simp add: dict_of_items_def camel_to_snake_fooBar camel_to_snake_FooBar)
  ultimately show ?thesis
    using camel_to_snake_fooBar camel_to_snake_FooBar by simp
qed

section \<open>Environment overrides: the blocks one by one\<close>

lemmas override_defs =
  override_groq_def override_openrouter_def override_openai_def override_anthropic_def
  override_deepseek_def override_gemini_def override_zhipu_def override_model_def
  override_workspace_def override_engine_def override_telegram_token_def
  override_allowed_users_def override_whatsapp_enabled_def override_whatsapp_numbers_def
  override_channels_def override_web_search_def

lemma apply_env_overrides_unfold:
  "apply_env_overrides env config =
     override_web_search env (override_channels env (override_whatsapp_numbers env
       (override_whatsapp_enabled env (override_allowed_users env
       (override_telegram_token env (override_engine env (override_workspace env
       (override_model env (override_zhipu env (override_gemini env (override_deepseek env
       (override_anthropic env (override_openai env (override_openrouter env
       (override_groq env config)))))))))))))))"
  by (simp add: apply_env_overrides_def)

lemma if_set_unset: "v = None \<or> v = Some [] \<Longrightarrow> if_set v body c = c"
  by (auto simp add: if_set_def)

lemma if_set_set: "s \<noteq> [] \<Longrightarrow> if_set (Some s) body c = body s c"
  by (simp add: if_set_def)

lemma py_or_unset:
  "a = None \<or> a = Some [] \<Longrightarrow> b = None \<or> b = Some [] \<Longrightarrow> py_or a b = None \<or> py_or a b = Some []"
  by (auto simp add: py_or_def)

lemma py_or_first: "s \<noteq> [] \<Longrightarrow> py_or (Some s) b = Some s"
  by (simp add: py_or_def)

lemma py_or_second: "a = None \<or> a = Some [] \<Longrightarrow> py_or a b = b"
  by (auto simp add: py_or_def)

text \<open>Each block leaves the other sections alone.\<close>

lemma providers_blocks_frame:
  "agents (override_groq env c) = agents c" "channels (override_groq env c) = channels c"
  "tools (override_groq env c) = tools c"
  "agents (override_openrouter env c) = agents c" "channels (override_openrouter env c) = channels c"
  "tools (override_openrouter env c) = tools c"
  "agents (override_openai env c) = agents c" "channels (override_openai env c) = channels c"
  "tools (override_openai env c) = tools c"
  "agents (override_anthropic env c) = agents c" "channels (override_anthropic env c) = channels c"
  "tools (override_anthropic env c) = tools c"
  "agents (override_deepseek env c) = agents c" "channels (override_deepseek env c) = channels c"
  "tools (override_deepseek env c) = tools c"
  "agents (override_gemini env c) = agents c" "channels (override_gemini env c) = channels c"
  "tools (override_gemini env c) = tools c"
  "agents (override_zhipu env c) = agents c" "channels (override_zhipu env c) = channels c"
  "tools (override_zhipu env c) = tools c"
  by (simp_all add: override_defs if_set_def split: option.splits)

lemma agents_blocks_frame:
  "providers (override_model env c) = providers c" "channels (override_model env c) = channels c"
  "tools (override_model env c) = tools c"
  "providers (override_workspace env c) = providers c" "channels (override_workspace env c) = channels c"
  "tools (override_workspace env c) = tools c"
  "override_engine env c = c"
  by (simp_all add: override_defs if_set_def split: option.splits)

lemma channels_blocks_frame:
  "providers (override_telegram_token env c) = providers c"
  "agents (override_telegram_token env c) = agents c"
  "tools (override_telegram_token env c) = tools c"
  "providers (override_allowed_users env c) = providers c"
  "agents (override_allowed_users env c) = agents c"
  "tools (override_allowed_users env c) = tools c"
  "providers (override_whatsapp_enabled env c) = providers c"
  "agents (override_whatsapp_enabled env c) = agents c"
  "tools (override_whatsapp_enabled env c) = tools c"
  "providers (override_whatsapp_numbers env c) = providers c"
  "agents (override_whatsapp_numbers env c) = agents c"
  "tools (override_whatsapp_numbers env c) = tools c"
  "providers (override_channels env c) = providers c"
  "agents (override_channels env c) = agents c"
  "tools (override_channels env c) = tools c"
  by (simp_all add: override_defs if_set_def split: option.splits)

lemma tools_blocks_frame:
  "providers (override_web_search env c) = providers c"
  "agents (override_web_search env c) = agents c"
  "channels (override_web_search env c) = channels c"
  by (simp_all add: override_defs if_set_def split: option.splits)

lemmas section_frame =
  providers_blocks_frame agents_blocks_frame channels_blocks_frame tools_blocks_frame

lemma providers_after_groq:
  "groq (providers (override_openrouter env c)) = groq (providers c)"
  "groq (providers (override_openai env c)) = groq (providers c)"
  "groq (providers (override_anthropic env c)) = groq (providers c)"
  "groq (providers (override_deepseek env c)) = groq (providers c)"
  "groq (providers (override_gemini env c)) = groq (providers c)"
  "groq (providers (override_zhipu env c)) = groq (providers c)"
  by (simp_all add: override_defs if_set_def split: option.splits)

lemma enable_channel_frame:
  "token (telegram (enable_channel n ch)) = token (telegram ch)"
  "allow_from (telegram (enable_channel n ch)) = allow_from (telegram ch)"
  "allow_from (whatsapp (enable_channel n ch)) = allow_from (whatsapp ch)"
  "enabled (telegram ch) \<Longrightarrow> enabled (telegram (enable_channel n ch))"
  "enabled (whatsapp ch) \<Longrightarrow> enabled (whatsapp (enable_channel n ch))"
  by (simp_all add: enable_channel_def)

lemma fold_enable_channel_frame:
  "token (telegram (fold enable_channel ns ch)) = token (telegram ch) \<and>
   allow_from (telegram (fold enable_channel ns ch)) = allow_from (telegram ch) \<and>
   allow_from (whatsapp (fold enable_channel ns ch)) = allow_from (whatsapp ch) \<and>
   (enabled (telegram ch) \<longrightarrow> enabled (telegram (fold enable_channel ns ch))) \<and>
   (enabled (whatsapp ch) \<longrightarrow> enabled (whatsapp (fold enable_channel ns ch)))"
  by (induction ns arbitrary: ch) (simp_all add: enable_channel_frame)

lemma telegram_after_token:
  "token (telegram (channels (override_allowed_users env c))) = token (telegram (channels c))"
  "enabled (telegram (channels (override_allowed_users env c))) = enabled (telegram (channels c))"
  "telegram (channels (override_whatsapp_enabled env c)) = telegram (channels c)"
  "telegram (channels (override_whatsapp_numbers env c)) = telegram (channels c)"
  "token (telegram (channels (override_channels env c))) = token (telegram (channels c))"
  "enabled (telegram (channels c)) \<Longrightarrow> enabled (telegram (channels (override_channels env c)))"
  by (simp_all add: override_defs if_set_def fold_enable_channel_frame split: option.splits)

lemma telegram_token_block:
  "env ''TELEGRAM_TOKEN'' = Some v \<Longrightarrow> v \<noteq> [] \<Longrightarrow>
   token (telegram (channels (override_telegram_token env c))) = v \<and>
   enabled (telegram (channels (override_telegram_token env c)))"
  by (simp add: override_telegram_token_def if_set_set)

lemma telegram_kept:
  assumes "token (telegram (channels c)) = v \<and> enabled (telegram (channels c))"
  shows "token (telegram (channels (override_web_search env (override_channels env
           (override_whatsapp_numbers env (override_whatsapp_enabled env
           (override_allowed_users env c))))))) = v \<and>
         enabled (telegram (channels (override_web_search env (override_channels env
           (override_whatsapp_numbers env (override_whatsapp_enabled env
           (override_allowed_users env c)))))))"
  using assms by (simp add: section_frame telegram_after_token)

lemma groq_first_alias:
  assumes "env ''GROQ_API_KEY'' = Some x" "x \<noteq> []"
  shows "api_key (groq (providers (apply_env_overrides env c))) = x"
  using assms
  by (simp add: apply_env_overrides_unfold section_frame providers_after_groq
      override_groq_def py_or_first if_set_set)

lemma groq_second_alias:
  assumes "unset_or_empty env ''GROQ_API_KEY''" "env ''LITELLM_GROQ_API_KEY'' = Some y" "y \<noteq> []"
  shows "api_key (groq (providers (apply_env_overrides env c))) = y"
  using assms
  by (simp add: apply_env_overrides_unfold section_frame providers_after_groq
      override_groq_def py_or_second if_set_set unset_or_empty_def)

lemma block_identity:
  "unset_or_empty env ''GROQ_API_KEY'' \<Longrightarrow> unset_or_empty env ''LITELLM_GROQ_API_KEY'' \<Longrightarrow>
     override_groq env c = c"
  "unset_or_empty env ''OPENROUTER_API_KEY'' \<Longrightarrow> override_openrouter env c = c"
  "unset_or_empty env ''OPENAI_API_KEY'' \<Longrightarrow> override_openai env c = c"
  "unset_or_empty env ''ANTHROPIC_API_KEY'' \<Longrightarrow> override_anthropic env c = c"
  "unset_or_empty env ''DEEPSEEK_API_KEY'' \<Longrightarrow> override_deepseek env c = c"
  "unset_or_empty env ''GEMINI_API_KEY'' \<Longrightarrow> override_gemini env c = c"
  "unset_or_empty env ''ZHIPU_API_KEY'' \<Longrightarrow> unset_or_empty env ''ZHIPUAI_API_KEY'' \<Longrightarrow>
     override_zhipu env c = c"
  "unset_or_empty env ''AGENT_MODEL'' \<Longrightarrow> unset_or_empty env ''MODEL'' \<Longrightarrow>
     override_model env c = c"
  "unset_or_empty env ''AGENT_WORKSPACE'' \<Longrightarrow> override_workspace env c = c"
  "unset_or_empty env ''TELEGRAM_TOKEN'' \<Longrightarrow> override_telegram_token env c = c"
  "unset_or_empty env ''ALLOWED_USERS'' \<Longrightarrow> unset_or_empty env ''TELEGRAM_ALLOWED_USERS'' \<Longrightarrow>
     override_allowed_users env c = c"
  "unset_or_empty env ''WHATSAPP_ENABLED'' \<Longrightarrow> override_whatsapp_enabled env c = c"
  "unset_or_empty env ''WHATSAPP_ALLOWED_NUMBERS'' \<Longrightarrow> override_whatsapp_numbers env c = c"
  "unset_or_empty env ''CHANNELS'' \<Longrightarrow> override_channels env c = c"
  "unset_or_empty env ''ALEXZO_API_KEY'' \<Longrightarrow> override_web_search env c = c"
  by (auto simp add: override_defs unset_or_empty_def if_set_def py_or_def lower_str_def)

lemma providers_frame:
  "groq (providers (override_openrouter env c)) = groq (providers c)"
  "groq (providers (override_openai env c)) = groq (providers c)"
  "groq (providers (override_anthropic env c)) = groq (providers c)"
  "groq (providers (override_deepseek env c)) = groq (providers c)"
  "groq (providers (override_gemini env c)) = groq (providers c)"
  "groq (providers (override_zhipu env c)) = groq (providers c)"
  "openrouter (providers (override_groq env c)) = openrouter (providers c)"
  "openrouter (providers (override_openai env c)) = openrouter (providers c)"
  "openrouter (providers (override_anthropic env c)) = openrouter (providers c)"
  "openrouter (providers (override_deepseek env c)) = openrouter (providers c)"
  "openrouter (providers (override_gemini env c)) = openrouter (providers c)"
  "openrouter (providers (override_zhipu env c)) = openrouter (providers c)"
  "openai (providers (override_groq env c)) = openai (providers c)"
  "openai (providers (override_openrouter env c)) = openai (providers c)"
  "openai (providers (override_anthropic env c)) = openai (providers c)"
  "openai (providers (override_deepseek env c)) = openai (providers c)"
  "openai (providers (override_gemini env c)) = openai (providers c)"
  "openai (providers (override_zhipu env c)) = openai (providers c)"
  "anthropic (providers (override_groq env c)) = anthropic (providers c)"
  "anthropic (providers (override_openrouter env c)) = anthropic (providers c)"
  "anthropic (providers (override_openai env c)) = anthropic (providers c)"
  "anthropic (providers (override_deepseek env c)) = anthropic (providers c)"
  "anthropic (providers (override_gemini env c)) = anthropic (providers c)"
  "anthropic (providers (override_zhipu env c)) = anthropic (providers c)"
  "deepseek (providers (override_groq env c)) = deepseek (providers c)"
  "deepseek (providers (override_openrouter env c)) = deepseek (providers c)"
  "deepseek (providers (override_openai env c)) = deepseek (providers c)"
  "deepseek (providers (override_anthropic env c)) = deepseek (providers c)"
  "deepseek (providers (override_gemini env c)) = deepseek (providers c)"
  "deepseek (providers (override_zhipu env c)) = deepseek (providers c)"
  "gemini (providers (override_groq env c)) = gemini (providers c)"
  "gemini (providers (override_openrouter env c)) = gemini (providers c)"
  "gemini (providers (override_openai env c)) = gemini (providers c)"
  "gemini (providers (override_anthropic env c)) = gemini (providers c)"
  "gemini (providers (override_deepseek env c)) = gemini (providers c)"
  "gemini (providers (override_zhipu env c)) = gemini (providers c)"
  "zhipu (providers (override_groq env c)) = zhipu (providers c)"
  "zhipu (providers (override_openrouter env c)) = zhipu (providers c)"
  "zhipu (providers (override_openai env c)) = zhipu (providers c)"
  "zhipu (providers (override_anthropic env c)) = zhipu (providers c)"
  "zhipu (providers (override_deepseek env c)) = zhipu (providers c)"
  "zhipu (providers (override_gemini env c)) = zhipu (providers c)"
  by (simp_all add: override_defs if_set_def split: option.splits)

lemma agents_frame:
  "model (defaults (agents (override_workspace env c))) = model (defaults (agents c))"
  "workspace (defaults (agents (override_model env c))) = workspace (defaults (agents c))"
  by (simp_all add: override_defs if_set_def split: option.splits)

lemma channels_frame:
  "telegram (channels (override_whatsapp_enabled env c)) = telegram (channels c)"
  "telegram (channels (override_whatsapp_numbers env c)) = telegram (channels c)"
  "token (telegram (channels (override_allowed_users env c))) = token (telegram (channels c))"
  "enabled (telegram (channels (override_allowed_users env c))) = enabled (telegram (channels c))"
  "token (telegram (channels (override_channels env c))) = token (telegram (channels c))"
  "allow_from (telegram (channels (override_telegram_token env c))) = allow_from (telegram (channels c))"
  "allow_from (telegram (channels (override_channels env c))) = allow_from (telegram (channels c))"
  "whatsapp (channels (override_telegram_token env c)) = whatsapp (channels c)"
  "whatsapp (channels (override_allowed_users env c)) = whatsapp (channels c)"
  "enabled (whatsapp (channels (override_whatsapp_numbers env c))) = enabled (whatsapp (channels c))"
  "allow_from (whatsapp (channels (override_whatsapp_enabled env c))) = allow_from (whatsapp (channels c))"
  "allow_from (whatsapp (channels (override_channels env c))) = allow_from (whatsapp (channels c))"
  "other_sections (channels (override_telegram_token env c)) = other_sections (channels c)"
  "other_sections (channels (override_allowed_users env c)) = other_sections (channels c)"
  "other_sections (channels (override_whatsapp_enabled env c)) = other_sections (channels c)"
  "other_sections (channels (override_whatsapp_numbers env c)) = other_sections (channels c)"
  by (simp_all add: override_defs if_set_def fold_enable_channel_frame split: option.splits)

lemmas frame = section_frame providers_frame agents_frame channels_frame

lemma all_unset:
  "list_all (unset_or_empty env) override_variables \<Longrightarrow> apply_env_overrides env c = c"
  by (simp add: override_variables_def apply_env_overrides_unfold block_identity agents_blocks_frame)

section \<open>Environment overrides: the claims\<close>

text \<open>
  C5: with \<^verbatim>\<open>TELEGRAM_TOKEN\<close> set to a non-empty value, the configuration that
  \<open>apply_env_overrides\<close> returns has that value as the telegram token and the telegram
  channel enabled, whatever the configuration passed in and whatever the other
  variables hold.
\<close>

theorem telegram_token_enables:
  assumes "env ''TELEGRAM_TOKEN'' = Some v" "v \<noteq> []"
  shows "token (telegram (channels (apply_env_overrides env c))) = v \<and>
         enabled (telegram (channels (apply_env_overrides env c)))"
  unfolding apply_env_overrides_unfold
  by (rule telegram_kept) (rule telegram_token_block [of env v, OF assms])

theorem telegram_token_enables_witness:
  "[''TELEGRAM_TOKEN'' \<mapsto> ''abc123''] ''TELEGRAM_TOKEN'' = Some ''abc123'' \<and> ''abc123'' \<noteq> [] \<and>
   token (telegram (channels example_config)) = ''old'' \<and>
   \<not> enabled (telegram (channels example_config)) \<and>
   token (telegram (channels
     (apply_env_overrides [''TELEGRAM_TOKEN'' \<mapsto> ''abc123''] example_config))) = ''abc123'' \<and>
   enabled (telegram (channels
     (apply_env_overrides [''TELEGRAM_TOKEN'' \<mapsto> ''abc123''] example_config)))"
proof -
  have a: "[''TELEGRAM_TOKEN'' \<mapsto> ''abc123''] ''TELEGRAM_TOKEN'' = Some ''abc123''" by simp
  have b: "''abc123'' \<noteq> []" by simp
  have c: "token (telegram (channels example_config)) = ''old'' \<and>
           \<not> enabled (telegram (channels example_config))"
    by (simp add: example_config_def)
  from a b c
    telegram_token_enables [of "[''TELEGRAM_TOKEN'' \<mapsto> ''abc123'']" "''abc123''" example_config]
  show ?thesis by blast
qed

text \<open>
  C6: with \<^verbatim>\<open>GROQ_API_KEY\<close> set and non-empty the Groq api key becomes its value,
  whatever \<^verbatim>\<open>LITELLM_GROQ_API_KEY\<close> holds; the value of \<^verbatim>\<open>LITELLM_GROQ_API_KEY\<close> is
  taken only when \<^verbatim>\<open>GROQ_API_KEY\<close> is unset or empty.
\<close>

theorem groq_first_alias_wins:
  "(env ''GROQ_API_KEY'' = Some x \<and> x \<noteq> [] \<and> env ''LITELLM_GROQ_API_KEY'' = Some y \<and> y \<noteq> [] \<longrightarrow>
      api_key (groq (providers (apply_env_overrides env c))) = x) \<and>
   (env ''GROQ_API_KEY'' = Some x \<and> x \<noteq> [] \<longrightarrow>
      api_key (groq (providers (apply_env_overrides env c))) = x) \<and>
   (unset_or_empty env ''GROQ_API_KEY'' \<and> env ''LITELLM_GROQ_API_KEY'' = Some y \<and> y \<noteq> [] \<longrightarrow>
      api_key (groq (providers (apply_env_overrides env c))) = y)"
  using groq_first_alias [of env x c] groq_second_alias [of env y c] by blast

theorem groq_first_alias_wins_witness:
  "[''GROQ_API_KEY'' \<mapsto> ''x'', ''LITELLM_GROQ_API_KEY'' \<mapsto> ''y''] ''GROQ_API_KEY'' = Some ''x'' \<and>
   [''GROQ_API_KEY'' \<mapsto> ''x'', ''LITELLM_GROQ_API_KEY'' \<mapsto> ''y''] ''LITELLM_GROQ_API_KEY'' = Some ''y'' \<and>
   api_key (groq (providers (apply_env_overrides
     [''GROQ_API_KEY'' \<mapsto> ''x'', ''LITELLM_GROQ_API_KEY'' \<mapsto> ''y''] example_config))) = ''x'' \<and>
   unset_or_empty [''LITELLM_GROQ_API_KEY'' \<mapsto> ''y''] ''GROQ_API_KEY'' \<and>
   api_key (groq (providers (apply_env_overrides
     [''LITELLM_GROQ_API_KEY'' \<mapsto> ''y''] example_config))) = ''y''"
proof -
  let ?both = "[''GROQ_API_KEY'' \<mapsto> ''x'', ''LITELLM_GROQ_API_KEY'' \<mapsto> ''y'']"
  let ?second = "[''LITELLM_GROQ_API_KEY'' \<mapsto> ''y'']"
  have a: "?both ''GROQ_API_KEY'' = Some ''x'' \<and> ''x'' \<noteq> [] \<and>
           ?both ''LITELLM_GROQ_API_KEY'' = Some ''y'' \<and> ''y'' \<noteq> []"
    by simp
  have b: "unset_or_empty ?second ''GROQ_API_KEY'' \<and>
           ?second ''LITELLM_GROQ_API_KEY'' = Some ''y'' \<and> ''y'' \<noteq> []"
    by (simp add: unset_or_empty_def)
  from a groq_first_alias_wins [of ?both "''x''" "''y''" example_config]
  have "api_key (groq (providers (apply_env_overrides ?both example_config))) = ''x''"
    by blast
  moreover from b groq_first_alias_wins [of ?second "''x''" "''y''" example_config]
  have "api_key (groq (providers (apply_env_overrides ?second example_config))) = ''y''"
    by blast
  ultimately show ?thesis using a b by blast
qed

text \<open>
  C7: \<open>apply_env_overrides\<close> never clears a field. For every field with an override
  mapping, when every variable mapped to the field is unset or empty the field has the
  value it had before the call; when none of the variables the function reads is set
  to a non-empty value, the configuration comes back unchanged.
\<close>

theorem overrides_never_clear:
  "(list_all (unset_or_empty env) override_variables \<longrightarrow> apply_env_overrides env c = c) \<and>
   (unset_or_empty env ''GROQ_API_KEY'' \<and> unset_or_empty env ''LITELLM_GROQ_API_KEY'' \<longrightarrow>
      api_key (groq (providers (apply_env_overrides env c))) = api_key (groq (providers c))) \<and>
   (unset_or_empty env ''OPENROUTER_API_KEY'' \<longrightarrow>
      api_key (openrouter (providers (apply_env_overrides env c))) = api_key (openrouter (providers c))) \<and>
   (unset_or_empty env ''OPENAI_API_KEY'' \<longrightarrow>
      api_key (openai (providers (apply_env_overrides env c))) = api_key (openai (providers c))) \<and>
   (unset_or_empty env ''ANTHROPIC_API_KEY'' \<longrightarrow>
      api_key (anthropic (providers (apply_env_overrides env c))) = api_key (anthropic (providers c))) \<and>
   (unset_or_empty env ''DEEPSEEK_API_KEY'' \<longrightarrow>
      api_key (deepseek (providers (apply_env_overrides env c))) = api_key (deepseek (providers c))) \<and>
   (unset_or_empty env ''GEMINI_API_KEY'' \<longrightarrow>
      api_key (gemini (providers (apply_env_overrides env c))) = api_key (gemini (providers c))) \<and>
   (unset_or_empty env ''ZHIPU_API_KEY'' \<and> unset_or_empty env ''ZHIPUAI_API_KEY'' \<longrightarrow>
      api_key (zhipu (providers (apply_env_overrides env c))) = api_key (zhipu (providers c))) \<and>
   (unset_or_empty env ''AGENT_MODEL'' \<and> unset_or_empty env ''MODEL'' \<longrightarrow>
      model (defaults (agents (apply_env_overrides env c))) = model (defaults (agents c))) \<and>
   (unset_or_empty env ''AGENT_WORKSPACE'' \<longrightarrow>
      workspace (defaults (agents (apply_env_overrides env c))) = workspace (defaults (agents c))) \<and>
   (unset_or_empty env ''TELEGRAM_TOKEN'' \<longrightarrow>
      token (telegram (channels (apply_env_overrides env c))) = token (telegram (channels c))) \<and>
   (unset_or_empty env ''TELEGRAM_TOKEN'' \<and> unset_or_empty env ''CHANNELS'' \<longrightarrow>
      enabled (telegram (channels (apply_env_overrides env c))) = enabled (telegram (channels c))) \<and>
   (unset_or_empty env ''ALLOWED_USERS'' \<and> unset_or_empty env ''TELEGRAM_ALLOWED_USERS'' \<longrightarrow>
      allow_from (telegram (channels (apply_env_overrides env c))) = allow_from (telegram (channels c))) \<and>
   (unset_or_empty env ''WHATSAPP_ENABLED'' \<and> unset_or_empty env ''CHANNELS'' \<longrightarrow>
      enabled (whatsapp (channels (apply_env_overrides env c))) = enabled (whatsapp (channels c))) \<and>
   (unset_or_empty env ''WHATSAPP_ALLOWED_NUMBERS'' \<longrightarrow>
      allow_from (whatsapp (channels (apply_env_overrides env c))) = allow_from (whatsapp (channels c))) \<and>
   (unset_or_empty env ''CHANNELS'' \<longrightarrow>
      other_sections (channels (apply_env_overrides env c)) = other_sections (channels c)) \<and>
   (unset_or_empty env ''ALEXZO_API_KEY'' \<longrightarrow>
      api_key (search (web (tools (apply_env_overrides env c)))) = api_key (search (web (tools c))))"
proof -
  have "list_all (unset_or_empty env) override_variables \<longrightarrow> apply_env_overrides env c = c"
    using all_unset by blast
  moreover have "unset_or_empty env ''GROQ_API_KEY'' \<and> unset_or_empty env ''LITELLM_GROQ_API_KEY'' \<longrightarrow>
      api_key (groq (providers (apply_env_overrides env c))) = api_key (groq (providers c))"
    by (simp add: apply_env_overrides_unfold frame block_identity)
  moreover have "unset_or_empty env ''OPENROUTER_API_KEY'' \<longrightarrow>
      api_key (openrouter (providers (apply_env_overrides env c))) = api_key (openrouter (providers c))"
    by (simp add: apply_env_overrides_unfold frame block_identity)
  moreover have "unset_or_empty env ''OPENAI_API_KEY'' \<longrightarrow>
      api_key (openai (providers (apply_env_overrides env c))) = api_key (openai (providers c))"
    by (simp add: apply_env_overrides_unfold frame block_identity)
  moreover have "unset_or_empty env ''ANTHROPIC_API_KEY'' \<longrightarrow>
      api_key (anthropic (providers (apply_env_overrides env c))) = api_key (anthropic (providers c))"
    by (simp add: apply_env_overrides_unfold frame block_identity)
  moreover have "unset_or_empty env ''DEEPSEEK_API_KEY'' \<longrightarrow>
      api_key (deepseek (providers (apply_env_overrides env c))) = api_key (deepseek (providers c))"
    by (simp add: apply_env_overrides_unfold frame block_identity)
  moreover have "unset_or_empty env ''GEMINI_API_KEY'' \<longrightarrow>
      api_key (gemini (providers (apply_env_overrides env c))) = api_key (gemini (providers c))"
    by (simp add: apply_env_overrides_unfold frame block_identity)
  moreover have "unset_or_empty env ''ZHIPU_API_KEY'' \<and> unset_or_empty env ''ZHIPUAI_API_KEY'' \<longrightarrow>
      api_key (zhipu (providers (apply_env_overrides env c))) = api_key (zhipu (providers c))"
    by (simp add: apply_env_overrides_unfold frame block_identity)
  moreover have "unset_or_empty env ''AGENT_MODEL'' \<and> unset_or_empty env ''MODEL'' \<longrightarrow>
      model (defaults (agents (apply_env_overrides env c))) = model (defaults (agents c))"
    by (simp add: apply_env_overrides_unfold frame block_identity)
  moreover have "unset_or_empty env ''AGENT_WORKSPACE'' \<longrightarrow>
      workspace (defaults (agents (apply_env_overrides env c))) = workspace (defaults (agents c))"
    by (simp add: apply_env_overrides_unfold frame block_identity)
  moreover have "unset_or_empty env ''TELEGRAM_TOKEN'' \<longrightarrow>
      token (telegram (channels (apply_env_overrides env c))) = token (telegram (channels c))"
    by (simp add: apply_env_overrides_unfold frame block_identity)
  moreover have "unset_or_empty env ''TELEGRAM_TOKEN'' \<and> unset_or_empty env ''CHANNELS'' \<longrightarrow>
      enabled (telegram (channels (apply_env_overrides env c))) = enabled (telegram (channels c))"
    by (simp add: apply_env_overrides_unfold frame block_identity)
  moreover have "unset_or_empty env ''ALLOWED_USERS'' \<and> unset_or_empty env ''TELEGRAM_ALLOWED_USERS'' \<longrightarrow>
      allow_from (telegram (channels (apply_env_overrides env c))) = allow_from (telegram (channels c))"
    by (simp add: apply_env_overrides_unfold frame block_identity)
  moreover have "unset_or_empty env ''WHATSAPP_ENABLED'' \<and> unset_or_empty env ''CHANNELS'' \<longrightarrow>
      enabled (whatsapp (channels (apply_env_overrides env c))) = enabled (whatsapp (channels c))"
    by (simp add: apply_env_overrides_unfold frame block_identity)
  moreover have "unset_or_empty env ''WHATSAPP_ALLOWED_NUMBERS'' \<longrightarrow>
      allow_from (whatsapp (channels (apply_env_overrides env c))) = allow_from (whatsapp (channels c))"
    by (simp add: apply_env_overrides_unfold frame block_identity)
  moreover have "unset_or_empty env ''CHANNELS'' \<longrightarrow>
      other_sections (channels (apply_env_overrides env c)) = other_sections (channels c)"
    by (simp add: apply_env_overrides_unfold frame block_identity)
  moreover have "unset_or_empty env ''ALEXZO_API_KEY'' \<longrightarrow>
      api_key (search (web (tools (apply_env_overrides env c)))) = api_key (search (web (tools c)))"
    by (simp add: apply_env_overrides_unfold frame block_identity)
  ultimately show ?thesis by (intro conjI)
qed

theorem overrides_never_clear_witness:
  "list_all (unset_or_empty Map.empty) override_variables \<and>
   apply_env_overrides Map.empty example_config = example_config \<and>
   unset_or_empty [''TELEGRAM_TOKEN'' \<mapsto> ''abc123''] ''GROQ_API_KEY'' \<and>
   unset_or_empty [''TELEGRAM_TOKEN'' \<mapsto> ''abc123''] ''LITELLM_GROQ_API_KEY'' \<and>
   api_key (groq (providers (apply_env_overrides [''TELEGRAM_TOKEN'' \<mapsto> ''abc123''] example_config)))
     = ''g0''"
proof -
  let ?env = "[''TELEGRAM_TOKEN'' \<mapsto> ''abc123'']"
  have a: "list_all (unset_or_empty Map.empty) override_variables"
    by (simp add: override_variables_def unset_or_empty_def)
  have b: "unset_or_empty ?env ''GROQ_API_KEY'' \<and> unset_or_empty ?env ''LITELLM_GROQ_API_KEY''"
    by (simp add: unset_or_empty_def)
  have c: "api_key (groq (providers example_config)) = ''g0''"
    by (simp add: example_config_def)
  from a overrides_never_clear [of Map.empty example_config, THEN conjunct1]
  have d: "apply_env_overrides Map.empty example_config = example_config" by blast
  from b overrides_never_clear [of ?env example_config, THEN conjunct2, THEN conjunct1]
  have "api_key (groq (providers (apply_env_overrides ?env example_config)))
        = api_key (groq (providers example_config))"
    by blast
  with a b c d show ?thesis by simp
qed

section \<open>Migration: the claim\<close>

lemma map_of_dict_set: "map_of (dict_set d k v) = (map_of d)(k \<mapsto> v)"
  by (induction d) (auto simp add: fun_eq_iff)

lemma map_of_without:
  "map_of (filter (\<lambda>kv. fst kv \<noteq> k) d) k' = (if k' = k then None else map_of d k')"
  by (induction d) auto

lemma is_mapping_iff: "is_mapping d = (\<exists>kvs. d = JObj kvs)"
  by (cases d) (simp_all add: is_mapping_def)

lemma migrate_config_no_tools:
  "map_of items ''tools'' = None \<Longrightarrow> migrate_config (JObj items) = Inr (JObj items)"
  by (simp add: migrate_config_def)

lemma migrate_config_no_exec:
  "map_of items ''tools'' = Some (JObj ts) \<Longrightarrow> map_of ts ''exec'' = None \<Longrightarrow>
   migrate_config (JObj items) = Inr (JObj items)"
  by (simp add: migrate_config_def)

lemma migrate_config_exec:
  "map_of items ''tools'' = Some (JObj ts) \<Longrightarrow> map_of ts ''exec'' = Some (JObj es) \<Longrightarrow>
   migrate_config (JObj items) =
     (case map_of es ''restrictToWorkspace'' of
        None \<Rightarrow> Inr (JObj items)
      | Some v \<Rightarrow>
          if map_of ts ''restrictToWorkspace'' \<noteq> None then Inr (JObj items)
          else Inr (JObj (dict_set items ''tools''
                 (JObj (dict_set
                    (dict_set ts ''exec''
                       (JObj (filter (\<lambda>kv. fst kv \<noteq> ''restrictToWorkspace'') es)))
                    ''restrictToWorkspace'' v)))))"
  by (auto simp add: migrate_config_def split: option.splits)

lemma moved_frame:
  assumes "\<not> prefix p [''tools'', ''exec'', ''restrictToWorkspace'']"
    "\<not> prefix [''tools'', ''restrictToWorkspace''] p"
    "\<not> prefix [''tools'', ''exec'', ''restrictToWorkspace''] p"
    "map_of items ''tools'' = Some (JObj ts)" "map_of ts ''exec'' = Some (JObj es)"
  shows "get_path (JObj (dict_set items ''tools''
                 (JObj (dict_set
                    (dict_set ts ''exec''
                       (JObj (filter (\<lambda>kv. fst kv \<noteq> ''restrictToWorkspace'') es)))
                    ''restrictToWorkspace'' v)))) p = get_path (JObj items) p"
proof (cases p)
  case Nil
  with assms(1) show ?thesis by simp
next
  case p1: (Cons k1 p')
  show ?thesis
  proof (cases "k1 = ''tools''")
    case False
    then show ?thesis by (simp add: p1 map_of_dict_set)
  next
    case t: True
    show ?thesis
    proof (cases p')
      case Nil
      with assms(1) p1 t show ?thesis by simp
    next
      case p2: (Cons k2 p'')
      have k2r: "k2 \<noteq> ''restrictToWorkspace''" using assms(2) p1 t p2 by simp
      show ?thesis
      proof (cases "k2 = ''exec''")
        case False
        with k2r show ?thesis using assms(4) by (simp add: p1 t p2 map_of_dict_set)
      next
        case e: True
        show ?thesis
        proof (cases p'')
          case Nil
          with assms(1) p1 t p2 e show ?thesis by simp
        next
          case p3: (Cons k3 p''')
          have "k3 \<noteq> ''restrictToWorkspace''" using assms(3) p1 t p2 e p3 by simp
          then show ?thesis
            using assms(4,5) by (simp add: p1 t p2 e p3 map_of_dict_set map_of_without)
        qed
      qed
    qed
  qed
qed

text \<open>
  C4, as stated, fails: it speaks of every raw document, and on a document whose
  \<^verbatim>\<open>tools\<close> entry is a number, on a document that is a list, and on one whose
  \<^verbatim>\<open>tools.exec\<close> is a list holding the string, \<open>migrate_config\<close> returns no document:
  it raises. None of the three has the nested key, so the claim has them returned
  unchanged.
\<close>

theorem migrate_config_counterexample:
  "get_path (JObj [(''tools'', JInt 5)]) [''tools'', ''exec'', ''restrictToWorkspace''] = None \<and>
   migrate_config (JObj [(''tools'', JInt 5)]) = Inl AttributeError \<and>
   migrate_config (JArr []) = Inl AttributeError \<and>
   migrate_config (JObj [(''tools'', JObj [(''exec'', JArr [JStr ''restrictToWorkspace''])])])
     = Inl TypeError"
  by (simp add: migrate_config_def)

text \<open>
  C4, amended: for every raw document that is a mapping in which \<^verbatim>\<open>tools\<close>, where
  present, is a mapping and \<^verbatim>\<open>tools.exec\<close>, where present, is a mapping,
  \<open>migrate_config\<close> returns a document. When \<^verbatim>\<open>tools.exec.restrictToWorkspace\<close> is
  present and \<^verbatim>\<open>tools.restrictToWorkspace\<close> is absent, the returned document has the
  old value at \<^verbatim>\<open>tools.restrictToWorkspace\<close>, nothing at
  \<^verbatim>\<open>tools.exec.restrictToWorkspace\<close>, and at every path that neither leads to nor lies
  under one of the two places what the input has there. In every other case (so also
  when the top-level key is already present) the document is returned as it is, old
  key included.
\<close>

theorem migrate_config_moves_flag:
  assumes "migratable d"
  shows "\<exists>d'. migrate_config d = Inr d' \<and>
     (if get_path d [''tools'', ''exec'', ''restrictToWorkspace''] \<noteq> None \<and>
         get_path d [''tools'', ''restrictToWorkspace''] = None
      then get_path d' [''tools'', ''restrictToWorkspace'']
             = get_path d [''tools'', ''exec'', ''restrictToWorkspace''] \<and>
           get_path d' [''tools'', ''exec'', ''restrictToWorkspace''] = None \<and>
           (\<forall>p. \<not> prefix p [''tools'', ''exec'', ''restrictToWorkspace''] \<and>
                \<not> prefix [''tools'', ''restrictToWorkspace''] p \<and>
                \<not> prefix [''tools'', ''exec'', ''restrictToWorkspace''] p
                \<longrightarrow> get_path d' p = get_path d p)
      else d' = d)"
proof -
  from assms obtain items where d: "d = JObj items"
    by (auto simp add: migratable_def is_mapping_iff)
  show ?thesis
  proof (cases "map_of items ''tools''")
    case None
    then show ?thesis by (simp add: d migrate_config_no_tools)
  next
    case (Some tv)
    with assms d obtain ts where tv: "tv = JObj ts"
      by (auto simp add: migratable_def is_mapping_iff)
    note tools = Some [unfolded tv]
    show ?thesis
    proof (cases "map_of ts ''exec''")
      case None
      with tools show ?thesis by (simp add: d migrate_config_no_exec)
    next
      case (Some ev)
      with assms d tools obtain es where ev: "ev = JObj es"
        by (auto simp add: migratable_def is_mapping_iff)
      note exec = Some [unfolded ev]
      show ?thesis
      proof (cases "map_of es ''restrictToWorkspace''")
        case None
        with tools exec show ?thesis by (simp add: d migrate_config_exec)
      next
        case v: (Some v)
        show ?thesis
        proof (cases "map_of ts ''restrictToWorkspace''")
          case (Some w)
          with tools exec v show ?thesis by (simp add: d migrate_config_exec)
        next
          case None
          with tools exec v show ?thesis
            using moved_frame [OF _ _ _ tools exec, of _ v]
            by (simp add: d migrate_config_exec map_of_dict_set map_of_without)
        qed
      qed
    qed
  qed
qed

theorem migrate_config_moves_flag_witness:
  "migratable legacy_document \<and>
   get_path legacy_document [''tools'', ''exec'', ''restrictToWorkspace''] = Some (JBool True) \<and>
   get_path legacy_document [''tools'', ''restrictToWorkspace''] = None \<and>
   (\<exists>d'. migrate_config legacy_document = Inr d' \<and>
      get_path d' [''tools'', ''restrictToWorkspace''] = Some (JBool True) \<and>
      get_path d' [''tools'', ''exec'', ''restrictToWorkspace''] = None \<and>
      get_path d' [''tools'', ''exec'', ''timeout''] = Some (JInt 60) \<and>
      get_path d' [''agents'', ''defaults'', ''model''] = Some (JStr ''some-model''))"
proof -
  have m: "migratable legacy_document"
    by (simp add: migratable_def is_mapping_def legacy_document_def)
  have c: "get_path legacy_document [''tools'', ''exec'', ''restrictToWorkspace''] = Some (JBool True)"
    "get_path legacy_document [''tools'', ''restrictToWorkspace''] = None"
    "get_path legacy_document [''tools'', ''exec'', ''timeout''] = Some (JInt 60)"
    "get_path legacy_document [''agents'', ''defaults'', ''model''] = Some (JStr ''some-model'')"
    by (simp_all add: legacy_document_def)
  from migrate_config_moves_flag [OF m] c(1,2) obtain d' where
    r: "migrate_config legacy_document = Inr d'"
    and moved: "get_path d' [''tools'', ''restrictToWorkspace''] = Some (JBool True)"
      "get_path d' [''tools'', ''exec'', ''restrictToWorkspace''] = None"
    and frame: "\<forall>p. \<not> prefix p [''tools'', ''exec'', ''restrictToWorkspace''] \<and>
                \<not> prefix [''tools'', ''restrictToWorkspace''] p \<and>
                \<not> prefix [''tools'', ''exec'', ''restrictToWorkspace''] p
                \<longrightarrow> get_path d' p = get_path legacy_document p"
    by auto
  from frame [rule_format, of "[''tools'', ''exec'', ''timeout'']"] c(3)
  have t: "get_path d' [''tools'', ''exec'', ''timeout''] = Some (JInt 60)" by simp
  from frame [rule_format, of "[''agents'', ''defaults'', ''model'']"] c(4)
  have a: "get_path d' [''agents'', ''defaults'', ''model''] = Some (JStr ''some-model'')" by simp
  from m c r moved t a show ?thesis by blast
qed

section \<open>The BigQuery tool: the claim\<close>

lemma get_client_cases:
  "(\<exists>e. get_client api self = (Inl e, self)) \<or> (\<exists>c self'. get_client api self = (Inr c, self'))"
  by (auto simp add: get_client_def split: option.splits sum.splits)

lemma get_client_no_key:
  "client self = None \<Longrightarrow> \<not> key_exists api (key_path self) \<Longrightarrow>
   get_client api self = (Inl (Exception (''BigQuery key not found at '' @ key_path self)), self)"
  by (simp add: get_client_def)

lemma run_operation_unknown:
  "\<not> known_operation operation \<Longrightarrow>
   run_operation api c operation kwargs
     = Inr (''Error: Unknown operation '' @ [CHR 0x27] @ operation @ [CHR 0x27])"
  by (simp add: run_operation_def known_operation_def)

lemma run_operation_missing:
  "missing_parameter operation kwargs \<Longrightarrow>
   \<exists>text. run_operation api c operation kwargs = Inr text \<and> prefix ''Error'' text"
  by (auto simp add: run_operation_def missing_parameter_def Let_def)

lemma execute_of_body:
  "execute api self operation kwargs =
     (case execute_body api self operation kwargs of
        (Inl e, self') \<Rightarrow> (Inr (''Error: '' @ str e), self')
      | (Inr text, self') \<Rightarrow> (Inr text, self'))"
  by (simp add: execute_def split: prod.splits sum.splits exception.splits)

text \<open>
  C9: \<open>execute\<close> never raises: for every tool state, operation and keyword arguments
  it returns a string. An exception raised anywhere in the body comes back as
  \<^verbatim>\<open>Error: \<close> followed by its text (for a missing key file, the text naming the key
  path); an unknown operation and a missing required parameter give a string that
  begins with \<^verbatim>\<open>Error\<close>. Exceptions are the instances of \<^verbatim>\<open>Exception\<close>, which is
  what the handler catches.
\<close>

theorem execute_never_raises:
  "\<exists>text self'. execute api self operation kwargs = (Inr text, self') \<and>
     (\<forall>e. fst (execute_body api self operation kwargs) = Inl e \<longrightarrow> text = ''Error: '' @ str e) \<and>
     (client self = None \<and> \<not> key_exists api (key_path self) \<longrightarrow>
        text = ''Error: BigQuery key not found at '' @ key_path self) \<and>
     (\<not> known_operation operation \<longrightarrow> prefix ''Error'' text) \<and>
     (missing_parameter operation kwargs \<longrightarrow> prefix ''Error'' text)"
proof -
  from get_client_cases [of api self] show ?thesis
  proof
    assume "\<exists>e. get_client api self = (Inl e, self)"
    then obtain e where g: "get_client api self = (Inl e, self)" by blast
    then have b: "execute_body api self operation kwargs = (Inl e, self)"
      by (simp add: execute_body_def)
    then have "execute api self operation kwargs = (Inr (''Error: '' @ str e), self)"
      by (simp add: execute_of_body)
    moreover have "client self = None \<and> \<not> key_exists api (key_path self) \<longrightarrow>
        ''Error: '' @ str e = ''Error: BigQuery key not found at '' @ key_path self"
      using g by (auto simp add: get_client_no_key)
    ultimately show ?thesis using b by simp
  next
    assume "\<exists>c self'. get_client api self = (Inr c, self')"
    then obtain c self' where g: "get_client api self = (Inr c, self')" by blast
    then have b: "execute_body api self operation kwargs
                  = (run_operation api c operation kwargs, self')"
      by (simp add: execute_body_def)
    have nk: "\<not> (client self = None \<and> \<not> key_exists api (key_path self))"
    proof
      assume "client self = None \<and> \<not> key_exists api (key_path self)"
      then have "get_client api self
                 = (Inl (Exception (''BigQuery key not found at '' @ key_path self)), self)"
        by (simp add: get_client_no_key)
      with g show False by simp
    qed
    show ?thesis
    proof (cases "run_operation api c operation kwargs")
      case (Inl e)
      have nu: "known_operation operation"
        using Inl run_operation_unknown [of operation api c kwargs] by auto
      have nm: "\<not> missing_parameter operation kwargs"
        using Inl run_operation_missing [of operation kwargs api c] by auto
      from Inl b have "execute api self operation kwargs = (Inr (''Error: '' @ str e), self')"
        by (simp add: execute_of_body)
      then show ?thesis using b Inl nk nu nm by auto
    next
      case (Inr out)
      from Inr b have "execute api self operation kwargs = (Inr out, self')"
        by (simp add: execute_of_body)
      moreover have "\<not> known_operation operation \<longrightarrow> prefix ''Error'' out"
        using Inr run_operation_unknown [of operation api c kwargs] by auto
      moreover have "missing_parameter operation kwargs \<longrightarrow> prefix ''Error'' out"
        using Inr run_operation_missing [of operation kwargs api c] by auto
      ultimately show ?thesis using b Inr nk by auto
    qed
  qed
qed

theorem execute_never_raises_witness:
  "\<not> known_operation ''drop_table'' \<and>
   client example_tool = None \<and> \<not> key_exists example_api (key_path example_tool) \<and>
   (\<exists>self'. execute example_api example_tool ''drop_table'' Map.empty
      = (Inr ''Error: BigQuery key not found at /home/user/.nanobot/bigquery-key.json'', self')) \<and>
   missing_parameter ''query'' Map.empty \<and>
   (\<exists>text self'. execute example_api connected_tool ''query'' Map.empty = (Inr text, self') \<and>
      prefix ''Error'' text)"
proof -
  have a: "\<not> known_operation ''drop_table''" by (simp add: known_operation_def)
  have b: "client example_tool = None \<and> \<not> key_exists example_api (key_path example_tool)"
    by (simp add: example_tool_def example_api_def)
  have c: "missing_parameter ''query'' Map.empty"
    by (simp add: missing_parameter_def kwargs_get_def)
  from execute_never_raises [of example_api example_tool "''drop_table''" Map.empty] b
  have d: "\<exists>self'. execute example_api example_tool ''drop_table'' Map.empty
      = (Inr (''Error: BigQuery key not found at '' @ key_path example_tool), self')"
    by blast
  have k: "''Error: BigQuery key not found at '' @ key_path example_tool
           = ''Error: BigQuery key not found at /home/user/.nanobot/bigquery-key.json''"
    by (simp add: example_tool_def)
  from execute_never_raises [of example_api connected_tool "''query''" Map.empty] c
  have e: "\<exists>text self'. execute example_api connected_tool ''query'' Map.empty = (Inr text, self') \<and>
      prefix ''Error'' text"
    by blast
  from a b c d [unfolded k] e show ?thesis by blast
qed

section \<open>Loading: the claims\<close>

text \<open>
  The overrides with the exception of the \<^verbatim>\<open>CHANNELS\<close> loop: when they return, they
  return what \<open>apply_env_overrides\<close> returns; with \<^verbatim>\<open>CHANNELS\<close> unset they return; on
  \<^verbatim>\<open>CHANNELS=__doc__\<close> they raise.
\<close>

lemma enable_section_absent: "map_of secs c = None \<Longrightarrow> enable_section c secs = secs"
  by (induction secs) (auto split: if_splits)

lemma enable_channel_absent: "\<not> has_section c chans \<Longrightarrow> enable_channel c chans = chans"
  by (simp add: has_section_def enable_channel_def enable_section_absent)

lemma enable_channels_fold:
  "enable_channels rejecting cs chans = Inr chans' \<Longrightarrow> chans' = fold enable_channel cs chans"
proof (induction cs arbitrary: chans)
  case Nil
  then show ?case by simp
next
  case (Cons c cs)
  then show ?case
    by (cases "has_section c chans") (auto simp add: enable_channel_absent split: if_splits)
qed

lemma override_channels_checked_returns:
  "override_channels_checked rejecting env c = Inr c' \<Longrightarrow> c' = override_channels env c"
  by (auto simp add: override_channels_checked_def override_channels_def if_set_def
      dest!: enable_channels_fold split: option.splits if_splits sum.splits)

lemma apply_env_overrides_checked_returns:
  "apply_env_overrides_checked rejecting env c = Inr c' \<Longrightarrow> c' = apply_env_overrides env c"
  by (auto simp add: apply_env_overrides_checked_def apply_env_overrides_def
      dest!: override_channels_checked_returns split: sum.splits)

lemma apply_env_overrides_checked_no_channels:
  "unset_or_empty env ''CHANNELS'' \<Longrightarrow>
   apply_env_overrides_checked rejecting env c = Inr (apply_env_overrides env c)"
  by (auto simp add: apply_env_overrides_checked_def apply_env_overrides_def
      override_channels_checked_def override_channels_def if_set_def unset_or_empty_def)

lemma doc_names:
  "map (\<lambda>c. lower_str (strip c)) (split (CHR '','') ''__doc__'') = [''__doc__'']"
  by code_simp

lemma other_sections_before_channels:
  "other_sections (channels (fold (\<lambda>block. block env)
      [override_groq, override_openrouter, override_openai, override_anthropic,
       override_deepseek, override_gemini, override_zhipu,
       override_model, override_workspace, override_engine,
       override_telegram_token, override_allowed_users,
       override_whatsapp_enabled, override_whatsapp_numbers] c))
   = other_sections (channels c)"
  by (simp add: frame)

lemma apply_env_overrides_checked_doc:
  assumes "env ''CHANNELS'' = Some ''__doc__''"
    "map_of (other_sections (channels c)) ''__doc__'' = None"
  shows "apply_env_overrides_checked rejecting env c = Inl AttributeError"
proof -
  have "\<not> has_section ''__doc__'' (channels (fold (\<lambda>block. block env)
      [override_groq, override_openrouter, override_openai, override_anthropic,
       override_deepseek, override_gemini, override_zhipu,
       override_model, override_workspace, override_engine,
       override_telegram_token, override_allowed_users,
       override_whatsapp_enabled, override_whatsapp_numbers] c))"
    using assms(2) by (simp only: has_section_def other_sections_before_channels) simp
  then show ?thesis
    using assms(1)
    by (simp add: apply_env_overrides_checked_def override_channels_checked_def doc_names
        del: fold_simps)
qed

lemma load_from_env_unset:
  "unset_or_empty env ''NANOBOT_CONFIG'' \<Longrightarrow> load_from_env ext env = Inr (None, [])"
  by (auto simp add: load_from_env_def unset_or_empty_def)

lemma load_config_files:
  "load_from_env ext env = Inr (None, ws) \<Longrightarrow>
   load_config ext env fs home config_path =
     (case try_paths ext fs (candidate_paths home config_path) of
        Inl e \<Rightarrow> Inl e
      | Inr (c, ws') \<Rightarrow>
          (case apply_env_overrides_checked (rejecting_attribute ext) env
                  (case c of None \<Rightarrow> Config_default ext | Some c \<Rightarrow> c) of
             Inl e \<Rightarrow> Inl e
           | Inr c' \<Rightarrow> Inr (c', ws @ ws')))"
  by (simp add: load_config_def)

lemma load_document_bad_tools:
  "json_loads ext text = Inr (JObj [(''tools'', JInt 5)]) \<Longrightarrow>
   load_document ext text = Inl AttributeError"
  by (simp add: load_document_def migrate_config_def)

lemma load_document_list:
  "json_loads ext text = Inr (JArr []) \<Longrightarrow> load_document ext text = Inl AttributeError"
  by (simp add: load_document_def migrate_config_def)

text \<open>
  What the file step does when every error is one the handler catches: with an explicit
  path only that path is read; the configuration returned is that of the first candidate
  that loads; a home-directory file that is not JSON is skipped with a warning.
\<close>

lemma try_paths_independent:
  "\<forall>p\<in>set paths. fs p = fs' p \<Longrightarrow> try_paths ext fs paths = try_paths ext fs' paths"
proof (induction paths)
  case Nil
  show ?case by simp
next
  case (Cons p paths)
  have a: "attempt ext fs p = attempt ext fs' p"
    using Cons.prems by (simp add: attempt_def)
  have r: "try_paths ext fs paths = try_paths ext fs' paths"
    using Cons by simp
  show ?case by (simp only: try_paths.simps a r)
qed

lemma load_config_independent:
  assumes "\<forall>p\<in>set (candidate_paths home config_path). fs p = fs' p"
  shows "load_config ext env fs home config_path = load_config ext env fs' home config_path"
  by (simp only: load_config_def try_paths_independent [OF assms])

lemma try_paths_first_loaded:
  "try_paths ext fs paths = Inr (c, ws) \<Longrightarrow> c = first_loaded ext fs paths"
proof (induction paths arbitrary: c ws)
  case Nil
  then show ?case by simp
next
  case (Cons p paths)
  then show ?case
    by (auto split: option.splits sum.splits if_splits prod.splits)
qed

lemma load_config_first_loaded:
  assumes "load_from_env ext env = Inr (None, ws)"
    "load_config ext env fs home config_path = Inr (cfg, ws')"
  shows "cfg = apply_env_overrides env
           (case first_loaded ext fs (candidate_paths home config_path) of
              None \<Rightarrow> Config_default ext | Some c \<Rightarrow> c)"
  using assms(2) try_paths_first_loaded [of ext fs "candidate_paths home config_path"]
  by (auto simp add: load_config_files [OF assms(1)]
      dest!: apply_env_overrides_checked_returns split: sum.splits prod.splits)

lemma load_config_skips_malformed:
  assumes "load_from_env ext env = Inr (None, ws)" "unset_or_empty env ''CHANNELS''"
    "fs (get_config_path home) = Some (Text malformed)"
    "json_loads ext malformed = Inl JSONDecodeError"
    "fs [''config.json''] = Some (Text valid)" "load_document ext valid = Inr c"
  shows "load_config ext env fs home None
         = Inr (apply_env_overrides env c, ws @ [(File (get_config_path home), JSONDecodeError)])"
  using assms(3-6)
  by (simp add: load_config_files [OF assms(1)] candidate_paths_def attempt_def
      load_document_def caught_def apply_env_overrides_checked_no_channels [OF assms(2)])

text \<open>
  C1 does not hold of the code: \<open>load_config\<close> raises. The handler catches
  JSONDecodeError and ValueError only; the AttributeError and TypeError that
  \<open>migrate_config\<close> raises on a document of another shape and the OSError of \<^verbatim>\<open>open\<close>
  pass through it. Three inputs: a home-directory file holding \<^verbatim>\<open>{"tools": 5}\<close>, a
  home-directory path that cannot be opened, and \<^verbatim>\<open>NANOBOT_CONFIG\<close> holding \<^verbatim>\<open>[]\<close>.
\<close>

theorem load_config_raises:
  "(unset_or_empty env ''NANOBOT_CONFIG'' \<and> fs (get_config_path home) = Some (Text text) \<and>
    json_loads ext text = Inr (JObj [(''tools'', JInt 5)]) \<longrightarrow>
      load_config ext env fs home None = Inl AttributeError) \<and>
   (unset_or_empty env ''NANOBOT_CONFIG'' \<and> fs (get_config_path home) = Some Unopenable \<longrightarrow>
      load_config ext env fs home None = Inl OSError) \<and>
   (env ''NANOBOT_CONFIG'' = Some text \<and> text \<noteq> [] \<and> json_loads ext text = Inr (JArr []) \<longrightarrow>
      load_config ext env fs home config_path = Inl AttributeError)"
proof (intro conjI impI)
  assume "unset_or_empty env ''NANOBOT_CONFIG'' \<and> fs (get_config_path home) = Some (Text text) \<and>
    json_loads ext text = Inr (JObj [(''tools'', JInt 5)])"
  then show "load_config ext env fs home None = Inl AttributeError"
    by (simp add: load_config_files [OF load_from_env_unset] candidate_paths_def attempt_def
        load_document_bad_tools caught_def)
next
  assume "unset_or_empty env ''NANOBOT_CONFIG'' \<and> fs (get_config_path home) = Some Unopenable"
  then show "load_config ext env fs home None = Inl OSError"
    by (simp add: load_config_files [OF load_from_env_unset] candidate_paths_def attempt_def
        caught_def)
next
  assume "env ''NANOBOT_CONFIG'' = Some text \<and> text \<noteq> [] \<and> json_loads ext text = Inr (JArr [])"
  then show "load_config ext env fs home config_path = Inl AttributeError"
    by (simp add: load_config_def load_from_env_def load_document_list caught_def)
qed

theorem load_config_raises_witness:
  \<open>unset_or_empty Map.empty ''NANOBOT_CONFIG'' \<and>
   [get_config_path example_home \<mapsto> Text ''{"tools": 5}''] (get_config_path example_home)
     = Some (Text ''{"tools": 5}'') \<and>
   json_loads example_ext ''{"tools": 5}'' = Inr (JObj [(''tools'', JInt 5)]) \<and>
   load_config example_ext Map.empty
     [get_config_path example_home \<mapsto> Text ''{"tools": 5}''] example_home None
     = Inl AttributeError\<close>
proof -
  let ?fs = \<open>[get_config_path example_home \<mapsto> Text ''{"tools": 5}'']\<close>
  have a: \<open>unset_or_empty Map.empty ''NANOBOT_CONFIG'' \<and>
           ?fs (get_config_path example_home) = Some (Text ''{"tools": 5}'') \<and>
           json_loads example_ext ''{"tools": 5}'' = Inr (JObj [(''tools'', JInt 5)])\<close>
    by (simp add: unset_or_empty_def example_ext_def example_loads_def)
  from a load_config_raises [of Map.empty ?fs example_home \<open>''{"tools": 5}''\<close> example_ext,
      THEN conjunct1]
  have "load_config example_ext Map.empty ?fs example_home None = Inl AttributeError"
    by blast
  with a show ?thesis by blast
qed

text \<open>
  C2 does not hold of the code: a candidate on which loading raises an error that the
  handler does not catch ends the call, and the next candidate is never tried. With
  \<^verbatim>\<open>NANOBOT_CONFIG\<close> unset and no explicit path the candidates are
  \<^verbatim>\<open>.nanobot/config.json\<close> under the home directory and then \<^verbatim>\<open>config.json\<close>. When the
  home-directory file holds \<^verbatim>\<open>{"tools": 5}\<close> (the migration raises AttributeError) or
  cannot be opened (OSError), and the file in the current directory loads to a
  configuration \<open>c\<close>, the first candidate that parses, migrates, normalizes and validates
  is the latter, yet \<open>load_config\<close> raises instead of returning the configuration of \<open>c\<close>.
\<close>

theorem load_config_aborts_before_cwd:
  "(unset_or_empty env ''NANOBOT_CONFIG'' \<and>
    fs (home @ [''.nanobot'', ''config.json'']) = Some (Text bad) \<and>
    json_loads ext bad = Inr (JObj [(''tools'', JInt 5)]) \<and>
    fs [''config.json''] = Some (Text good) \<and> load_document ext good = Inr c \<longrightarrow>
      candidate_paths home None = [home @ [''.nanobot'', ''config.json''], [''config.json'']] \<and>
      first_loaded ext fs (candidate_paths home None) = Some c \<and>
      load_config ext env fs home None = Inl AttributeError) \<and>
   (unset_or_empty env ''NANOBOT_CONFIG'' \<and>
    fs (home @ [''.nanobot'', ''config.json'']) = Some Unopenable \<and>
    fs [''config.json''] = Some (Text good) \<and> load_document ext good = Inr c \<longrightarrow>
      candidate_paths home None = [home @ [''.nanobot'', ''config.json''], [''config.json'']] \<and>
      first_loaded ext fs (candidate_paths home None) = Some c \<and>
      load_config ext env fs home None = Inl OSError)"
proof (intro conjI impI)
  assume a: "unset_or_empty env ''NANOBOT_CONFIG'' \<and>
    fs (home @ [''.nanobot'', ''config.json'']) = Some (Text bad) \<and>
    json_loads ext bad = Inr (JObj [(''tools'', JInt 5)]) \<and>
    fs [''config.json''] = Some (Text good) \<and> load_document ext good = Inr c"
  show "candidate_paths home None = [home @ [''.nanobot'', ''config.json''], [''config.json'']]"
    by (simp add: candidate_paths_def get_config_path_def)
  from a show "first_loaded ext fs (candidate_paths home None) = Some c"
    by (simp add: candidate_paths_def get_config_path_def attempt_def load_document_bad_tools)
  from a show "load_config ext env fs home None = Inl AttributeError"
    by (simp add: load_config_files [OF load_from_env_unset] candidate_paths_def
        get_config_path_def attempt_def load_document_bad_tools caught_def)
next
  assume a: "unset_or_empty env ''NANOBOT_CONFIG'' \<and>
    fs (home @ [''.nanobot'', ''config.json'']) = Some Unopenable \<and>
    fs [''config.json''] = Some (Text good) \<and> load_document ext good = Inr c"
  show "candidate_paths home None = [home @ [''.nanobot'', ''config.json''], [''config.json'']]"
    by (simp add: candidate_paths_def get_config_path_def)
  from a show "first_loaded ext fs (candidate_paths home None) = Some c"
    by (simp add: candidate_paths_def get_config_path_def attempt_def)
  from a show "load_config ext env fs home None = Inl OSError"
    by (simp add: load_config_files [OF load_from_env_unset] candidate_paths_def
        get_config_path_def attempt_def caught_def)
qed

theorem load_config_aborts_before_cwd_witness:
  \<open>unset_or_empty Map.empty ''NANOBOT_CONFIG'' \<and>
   broken_home_fs (example_home @ [''.nanobot'', ''config.json'']) = Some (Text ''{"tools": 5}'') \<and>
   json_loads example_ext ''{"tools": 5}'' = Inr (JObj [(''tools'', JInt 5)]) \<and>
   broken_home_fs [''config.json'']
     = Some (Text ''{"agents": {"defaults": {"model": "from-cwd"}}}'') \<and>
   load_document example_ext ''{"agents": {"defaults": {"model": "from-cwd"}}}''
     = Inr from_cwd_config \<and>
   first_loaded example_ext broken_home_fs (candidate_paths example_home None)
     = Some from_cwd_config \<and>
   load_config example_ext Map.empty broken_home_fs example_home None = Inl AttributeError \<and>
   (broken_home_fs(example_home @ [''.nanobot'', ''config.json''] \<mapsto> Unopenable))
     (example_home @ [''.nanobot'', ''config.json'']) = Some Unopenable \<and>
   first_loaded example_ext
     (broken_home_fs(example_home @ [''.nanobot'', ''config.json''] \<mapsto> Unopenable))
     (candidate_paths example_home None) = Some from_cwd_config \<and>
   load_config example_ext Map.empty
     (broken_home_fs(example_home @ [''.nanobot'', ''config.json''] \<mapsto> Unopenable))
     example_home None = Inl OSError\<close>
proof -
  let ?fs = "broken_home_fs(example_home @ [''.nanobot'', ''config.json''] \<mapsto> Unopenable)"
  have a: \<open>unset_or_empty Map.empty ''NANOBOT_CONFIG'' \<and>
     broken_home_fs (example_home @ [''.nanobot'', ''config.json''])
       = Some (Text ''{"tools": 5}'') \<and>
     json_loads example_ext ''{"tools": 5}'' = Inr (JObj [(''tools'', JInt 5)]) \<and>
     broken_home_fs [''config.json'']
       = Some (Text ''{"agents": {"defaults": {"model": "from-cwd"}}}'')\<close>
    by (simp add: unset_or_empty_def broken_home_fs_def example_home_def example_ext_def
        example_loads_def)
  have b: \<open>load_document example_ext ''{"agents": {"defaults": {"model": "from-cwd"}}}''
     = Inr from_cwd_config\<close>
    by code_simp
  note inst = load_config_aborts_before_cwd [of Map.empty broken_home_fs example_home
      \<open>''{"tools": 5}''\<close> example_ext \<open>''{"agents": {"defaults": {"model": "from-cwd"}}}''\<close>
      from_cwd_config, THEN conjunct1]
  from inst a b
  have r: "first_loaded example_ext broken_home_fs (candidate_paths example_home None)
          = Some from_cwd_config \<and>
        load_config example_ext Map.empty broken_home_fs example_home None = Inl AttributeError"
    by blast
  have a': \<open>unset_or_empty Map.empty ''NANOBOT_CONFIG'' \<and>
     ?fs (example_home @ [''.nanobot'', ''config.json'']) = Some Unopenable \<and>
     ?fs [''config.json''] = Some (Text ''{"agents": {"defaults": {"model": "from-cwd"}}}'')\<close>
    by (simp add: unset_or_empty_def broken_home_fs_def example_home_def)
  note inst' = load_config_aborts_before_cwd [of Map.empty ?fs example_home
      \<open>''{"tools": 5}''\<close> example_ext \<open>''{"agents": {"defaults": {"model": "from-cwd"}}}''\<close>
      from_cwd_config, THEN conjunct2]
  from inst' a' b
  have r': "first_loaded example_ext ?fs (candidate_paths example_home None)
          = Some from_cwd_config \<and>
        load_config example_ext Map.empty ?fs example_home None = Inl OSError"
    by blast
  from a b r a' r' show ?thesis by blast
qed

section \<open>Saving: the claim\<close>

text \<open>
  The three file operations together, by recursion on the path: the target in the root,
  below a directory that exists, below a directory that has to be made.
\<close>

lemma dict_set_twice: "dict_set (dict_set d k a) k b = dict_set d k b"
  by (induction d) auto

lemma dict_set_append_fresh:
  "map_of d k = None \<Longrightarrow> dict_set (d @ [(k, a)]) k b = d @ [(k, b)]"
  by (induction d) (auto split: if_splits)

lemma map_of_append_fresh:
  "map_of d k = None \<Longrightarrow> map_of (d @ [(k, a)]) = (map_of d)(k \<mapsto> a)"
  by (induction d) (auto simp add: fun_eq_iff split: if_splits)

lemma mkdir_fresh: "mkdir True True p (fresh_dirs p) = Inr (fresh_dirs p)"
  by (induction p) simp_all

lemma lookup_fresh_dirs:
  "lookup (fresh_dirs a) r = (if prefix r a then Some (fresh_dirs (drop (length r) a)) else None)"
proof (induction a arbitrary: r)
  case Nil
  then show ?case by (cases r) simp_all
next
  case (Cons n a)
  then show ?case by (cases r) auto
qed

lemma writable_fresh: "q \<noteq> [] \<Longrightarrow> writable_location q (fresh_dirs (butlast q))"
proof (induction q)
  case Nil
  then show ?case by simp
next
  case (Cons n q)
  then show ?case by (cases q) simp_all
qed

lemma store_Nil: "store [] text t = Inl OSError"
  by (cases t) (simp_all add: store_def parent_def write_file_def)

lemma store_file: "store (n # p) text (FileT w s) = Inl OSError"
  by (cases p) (simp_all add: store_def parent_def write_file_def)

lemma store_single:
  "store [n] text (DirT w es) =
     (case map_of es n of
        Some (FileT fw s) \<Rightarrow>
          if fw then Inr (DirT w (dict_set es n (FileT fw text))) else Inl OSError
      | Some (DirT dw ds) \<Rightarrow> Inl OSError
      | None \<Rightarrow> if w then Inr (DirT w (es @ [(n, FileT True text)])) else Inl OSError)"
  by (auto simp add: store_def parent_def write_file_def map_of_dict_set dict_set_twice
      map_of_append_fresh dict_set_append_fresh split: option.splits tree.splits)

lemma write_file_descend:
  "map_of es n = Some child \<Longrightarrow>
   write_file (n # m # p) text (DirT w es) =
     (case write_file (m # p) text child of
        Inl e \<Rightarrow> Inl e
      | Inr c' \<Rightarrow> Inr (DirT w (dict_set es n c')))"
  by (auto simp add: write_file_def map_of_dict_set dict_set_twice split: sum.splits)

lemma store_descend:
  "map_of es n = Some child \<Longrightarrow>
   store (n # m # p) text (DirT w es) =
     (case store (m # p) text child of
        Inl e \<Rightarrow> Inl e
      | Inr c' \<Rightarrow> Inr (DirT w (dict_set es n c')))"
  by (auto simp add: store_def parent_def write_file_descend map_of_dict_set dict_set_twice
      split: sum.splits)

lemma store_fresh_child:
  "store q text (fresh_dirs (parent q)) = write_file q text (fresh_dirs (parent q))"
  by (simp add: store_def mkdir_fresh)

lemma store_create:
  assumes "map_of es n = None"
  shows "store (n # m # p) text (DirT w es) =
     (if w then
        (case store (m # p) text (fresh_dirs (parent (m # p))) of
           Inl e \<Rightarrow> Inl e
         | Inr c' \<Rightarrow> Inr (DirT w (es @ [(n, c')])))
      else Inl OSError)"
proof -
  define a where "a = butlast (m # p)"
  have par: "parent (n # m # p) = n # a" "parent (m # p) = a"
    by (simp_all add: parent_def a_def)
  have mk: "mkdir True True (n # a) (DirT w es) =
            (if w then Inr (DirT w (es @ [(n, fresh_dirs a)])) else Inl OSError)"
    using assms by simp
  have child: "map_of (es @ [(n, fresh_dirs a)]) n = Some (fresh_dirs a)"
    unfolding map_of_append_fresh [OF assms] by simp
  have wf: "\<And>b. write_file (n # m # p) text (DirT b (es @ [(n, fresh_dirs a)])) =
     (case write_file (m # p) text (fresh_dirs a) of
        Inl e \<Rightarrow> Inl e
      | Inr c' \<Rightarrow> Inr (DirT b (es @ [(n, c')])))"
    using assms
    by (simp add: write_file_descend [OF child] dict_set_append_fresh split: sum.splits)
  have st: "store (m # p) text (fresh_dirs a) = write_file (m # p) text (fresh_dirs a)"
    using store_fresh_child [of "m # p" "text"] by (simp add: par)
  show ?thesis
  proof (cases w)
    case True
    have "store (n # m # p) text (DirT w es)
          = write_file (n # m # p) text (DirT w (es @ [(n, fresh_dirs a)]))"
      using True assms by (simp add: store_def par)
    then show ?thesis using True by (simp add: wf st par split: sum.splits)
  next
    case False
    then show ?thesis using assms by (simp add: store_def par)
  qed
qed


lemma is_directory_Nil: "is_directory (DirT w es) []"
  by (simp add: is_directory_def)

lemma strict_prefix_single: "strict_prefix q [n] = (q = [])"
  by (cases q) simp_all

lemma store_spec:
  "(writable_location path t \<longrightarrow>
      (\<exists>t'. store path text t = Inr t' \<and> lookup t' path = Some (FileT True text) \<and>
            (\<forall>q. strict_prefix q path \<longrightarrow> is_directory t' q) \<and>
            (\<forall>q. \<not> prefix q path \<longrightarrow> lookup t' q = lookup t q))) \<and>
   (\<not> writable_location path t \<longrightarrow> store path text t = Inl OSError)"
proof (induction path arbitrary: t)
  case Nil
  show ?case by (simp add: store_Nil)
next
  case (Cons n p)
  show ?case
  proof (cases t)
    case (FileT w s)
    then show ?thesis by (simp add: store_file)
  next
    case (DirT w es)
    show ?thesis
    proof (cases p)
      case Nil
      have frame: "\<And>x q. \<not> prefix q [n] \<Longrightarrow> map_of es n = Some (FileT True s') \<Longrightarrow>
          lookup (DirT w (dict_set es n (FileT True text))) q = lookup (DirT w es) q" for s'
      proof -
        fix q assume q: "\<not> prefix q [n]" and e: "map_of es n = Some (FileT True s')"
        show "lookup (DirT w (dict_set es n (FileT True text))) q = lookup (DirT w es) q"
        proof (cases q)
          case Nil
          with q show ?thesis by simp
        next
          case (Cons k q')
          with q e show ?thesis
            by (cases q') (auto simp add: map_of_dict_set)
        qed
      qed
      have frame2: "\<And>q. \<not> prefix q [n] \<Longrightarrow> map_of es n = None \<Longrightarrow>
          lookup (DirT w (es @ [(n, FileT True text)])) q = lookup (DirT w es) q"
      proof -
        fix q assume q: "\<not> prefix q [n]" and e: "map_of es n = None"
        show "lookup (DirT w (es @ [(n, FileT True text)])) q = lookup (DirT w es) q"
        proof (cases q)
          case Nil
          with q show ?thesis by simp
        next
          case (Cons k q')
          with q e show ?thesis
            by (cases q') (auto simp add: map_add_def split: option.splits)
        qed
      qed
      show ?thesis
      proof (cases "map_of es n")
        case None
        then show ?thesis
          using frame2
          by (auto simp add: DirT Nil store_single is_directory_Nil map_of_append_fresh
              strict_prefix_single simp del: map_of_append)
      next
        case (Some child)
        then show ?thesis
          using frame
          by (cases child)
             (auto simp add: DirT Nil store_single is_directory_Nil map_of_dict_set
                strict_prefix_single)
      qed
    next
      case (Cons m p')
      show ?thesis
      proof (cases "map_of es n")
        case None
        show ?thesis
        proof (cases w)
          case False
          with None show ?thesis by (simp add: DirT Cons store_create)
        next
          case True
          let ?child = "fresh_dirs (parent (m # p'))"
          have wl: "writable_location (m # p') ?child"
            using writable_fresh [of "m # p'"] by (simp add: parent_def)
          from Cons.IH [of ?child] wl obtain c' where
            st: "store p text ?child = Inr c'"
            and lk: "lookup c' p = Some (FileT True text)"
            and anc: "\<forall>q. strict_prefix q p \<longrightarrow> is_directory c' q"
            and fr: "\<forall>q. \<not> prefix q p \<longrightarrow> lookup c' q = lookup ?child q"
            unfolding Cons by blast
          have child: "map_of (es @ [(n, c')]) = (map_of es)(n \<mapsto> c')"
            by (rule map_of_append_fresh [OF None])
          have res: "store (n # p) text t = Inr (DirT w (es @ [(n, c')]))"
            using st True by (simp add: DirT Cons store_create [OF None])
          have l1: "lookup (DirT w (es @ [(n, c')])) (n # p) = Some (FileT True text)"
            unfolding lookup.simps child using lk by simp
          have l2: "\<forall>q. strict_prefix q (n # p) \<longrightarrow> is_directory (DirT w (es @ [(n, c')])) q"
          proof (intro allI impI)
            fix q assume q: "strict_prefix q (n # p)"
            show "is_directory (DirT w (es @ [(n, c')])) q"
            proof (cases q)
              case Nil
              then show ?thesis by (simp add: is_directory_Nil)
            next
              case (Cons k q')
              with q have "k = n" "strict_prefix q' p" by simp_all
              then show ?thesis
                using anc unfolding Cons is_directory_def lookup.simps child by simp
            qed
          qed
          have l3: "\<forall>q. \<not> prefix q (n # p) \<longrightarrow>
                      lookup (DirT w (es @ [(n, c')])) q = lookup t q"
          proof (intro allI impI)
            fix q assume q: "\<not> prefix q (n # p)"
            show "lookup (DirT w (es @ [(n, c')])) q = lookup t q"
            proof (cases q)
              case Nil
              with q show ?thesis by simp
            next
              case (Cons k q')
              show ?thesis
              proof (cases "k = n")
                case False
                then show ?thesis
                  unfolding Cons DirT lookup.simps child by simp
              next
                case kn: True
                with q Cons have np: "\<not> prefix q' p" by simp
                then have "\<not> prefix q' (parent (m # p'))"
                  unfolding \<open>p = m # p'\<close> parent_def
                  by (metis prefix_order.trans prefixeq_butlast)
                then have "lookup ?child q' = None"
                  by (simp add: lookup_fresh_dirs)
                with fr np have "lookup c' q' = None" by simp
                then show ?thesis
                  unfolding Cons DirT kn lookup.simps child using None by simp
              qed
            qed
          qed
          from wl True None res l1 l2 l3 show ?thesis
            by (simp add: DirT Cons)
        qed
      next
        case (Some child)
        have wl: "writable_location (n # p) t = writable_location p child"
          using Some by (simp add: DirT Cons)
        have st: "store (n # p) text t =
                  (case store p text child of Inl e \<Rightarrow> Inl e
                   | Inr c' \<Rightarrow> Inr (DirT w (dict_set es n c')))"
          using Some by (simp add: DirT Cons store_descend)
        show ?thesis
        proof (cases "writable_location p child")
          case False
          with Cons.IH [of child] have "store p text child = Inl OSError" by blast
          with False wl st show ?thesis by simp
        next
          case True
          from Cons.IH [of child] True obtain c' where
            sc: "store p text child = Inr c'"
            and lk: "lookup c' p = Some (FileT True text)"
            and anc: "\<forall>q. strict_prefix q p \<longrightarrow> is_directory c' q"
            and fr: "\<forall>q. \<not> prefix q p \<longrightarrow> lookup c' q = lookup child q"
            by blast
          have res: "store (n # p) text t = Inr (DirT w (dict_set es n c'))"
            using st sc by simp
          have l1: "lookup (DirT w (dict_set es n c')) (n # p) = Some (FileT True text)"
            using lk by (simp add: map_of_dict_set)
          have l2: "\<forall>q. strict_prefix q (n # p) \<longrightarrow> is_directory (DirT w (dict_set es n c')) q"
          proof (intro allI impI)
            fix q assume q: "strict_prefix q (n # p)"
            show "is_directory (DirT w (dict_set es n c')) q"
            proof (cases q)
              case Nil
              then show ?thesis by (simp add: is_directory_Nil)
            next
              case (Cons k q')
              with q have "k = n" "strict_prefix q' p" by simp_all
              then show ?thesis
                using anc by (simp add: Cons is_directory_def map_of_dict_set)
            qed
          qed
          have l3: "\<forall>q. \<not> prefix q (n # p) \<longrightarrow>
                      lookup (DirT w (dict_set es n c')) q = lookup t q"
          proof (intro allI impI)
            fix q assume q: "\<not> prefix q (n # p)"
            show "lookup (DirT w (dict_set es n c')) q = lookup t q"
            proof (cases q)
              case Nil
              with q show ?thesis by simp
            next
              case (Cons k q')
              show ?thesis
              proof (cases "k = n")
                case False
                then show ?thesis by (simp add: Cons DirT map_of_dict_set)
              next
                case kn: True
                with q Cons have "\<not> prefix q' p" by simp
                with fr have "lookup c' q' = lookup child q'" by simp
                then show ?thesis using Some by (simp add: Cons DirT kn map_of_dict_set)
              qed
            qed
          qed
          from True wl res l1 l2 l3 show ?thesis by simp
        qed
      qed
    qed
  qed
qed


lemma save_config_store:
  "save_config ext home config config_path fs =
     store (target_path home config_path)
       (json_dump (Some 2) (float_text ext) (convert_to_camel (model_dump config))) fs"
  by (simp add: save_config_def store_def write_file_def Let_def split: sum.splits)

text \<open>The data written: \<open>convert_to_camel\<close> of the dump.\<close>

lemma dict_set_fresh: "k \<notin> fst ` set d \<Longrightarrow> dict_set d k v = d @ [(k, v)]"
  by (induction d) auto

lemma foldl_dict_set_distinct:
  "distinct (map fst (acc @ kvs)) \<Longrightarrow>
   foldl (\<lambda>d kv. dict_set d (fst kv) (snd kv)) acc kvs = acc @ kvs"
proof (induction kvs arbitrary: acc)
  case Nil
  then show ?case by simp
next
  case (Cons kv kvs)
  from Cons.prems have fresh: "fst kv \<notin> fst ` set acc" by auto
  from Cons.prems have d: "distinct (map fst ((acc @ [kv]) @ kvs))" by simp
  have "dict_set acc (fst kv) (snd kv) = acc @ [kv]"
    using dict_set_fresh [OF fresh, of "snd kv"] by simp
  then show ?case using Cons.IH [OF d] by simp
qed

lemma dict_of_items_distinct: "distinct (map fst kvs) \<Longrightarrow> dict_of_items kvs = kvs"
  using foldl_dict_set_distinct [of "[]" kvs] by (simp add: dict_of_items_def)

lemma convert_to_camel_rename:
  "collision_free snake_to_camel d \<Longrightarrow> convert_to_camel d = rename_keys snake_to_camel d"
proof (induction d)
  case (JArr items)
  then show ?case by (simp add: list_all_iff)
next
  case (JObj kvs)
  have vals: "\<And>k v. (k, v) \<in> set kvs \<Longrightarrow> convert_to_camel v = rename_keys snake_to_camel v"
  proof -
    fix k v assume m: "(k, v) \<in> set kvs"
    then have "collision_free snake_to_camel v"
      using JObj.prems by (auto simp add: list_all_iff)
    then show "convert_to_camel v = rename_keys snake_to_camel v"
      using JObj.IH [of "(k, v)" v] m by simp
  qed
  have m: "map (\<lambda>(k, v). (snake_to_camel k, convert_to_camel v)) kvs
           = map (\<lambda>(k, v). (snake_to_camel k, rename_keys snake_to_camel v)) kvs"
    using vals by auto
  have e: "map fst (map (\<lambda>(k, v). (snake_to_camel k, rename_keys snake_to_camel v)) kvs)
        = map (\<lambda>kv. snake_to_camel (fst kv)) kvs"
    by (induction kvs) auto
  have "distinct (map (\<lambda>kv. snake_to_camel (fst kv)) kvs)"
    using JObj.prems by simp
  then have "distinct (map fst (map (\<lambda>(k, v). (snake_to_camel k, rename_keys snake_to_camel v)) kvs))"
    by (simp only: e)
  then show ?case
    by (simp add: m dict_of_items_distinct)
qed simp_all

lemma snake_keys:
  "snake_to_camel ''providers'' = ''providers''"
  "snake_to_camel ''groq'' = ''groq''"
  "snake_to_camel ''openrouter'' = ''openrouter''"
  "snake_to_camel ''openai'' = ''openai''"
  "snake_to_camel ''anthropic'' = ''anthropic''"
  "snake_to_camel ''deepseek'' = ''deepseek''"
  "snake_to_camel ''gemini'' = ''gemini''"
  "snake_to_camel ''zhipu'' = ''zhipu''"
  "snake_to_camel ''api_key'' = ''apiKey''"
  "snake_to_camel ''agents'' = ''agents''"
  "snake_to_camel ''defaults'' = ''defaults''"
  "snake_to_camel ''model'' = ''model''"
  "snake_to_camel ''workspace'' = ''workspace''"
  "snake_to_camel ''channels'' = ''channels''"
  "snake_to_camel ''telegram'' = ''telegram''"
  "snake_to_camel ''whatsapp'' = ''whatsapp''"
  "snake_to_camel ''enabled'' = ''enabled''"
  "snake_to_camel ''allow_from'' = ''allowFrom''"
  "snake_to_camel ''token'' = ''token''"
  "snake_to_camel ''tools'' = ''tools''"
  "snake_to_camel ''web'' = ''web''"
  "snake_to_camel ''search'' = ''search''"
  by code_simp+

lemma rename_keys_strings: "map (rename_keys f) (map JStr xs) = map JStr xs"
  by (induction xs) simp_all

lemma rename_keys_model_dump:
  "rename_keys snake_to_camel (model_dump c) =
     JObj
      [(''providers'',
        JObj [(''groq'', JObj [(''apiKey'', JStr (api_key (groq (providers c))))]),
              (''openrouter'', JObj [(''apiKey'', JStr (api_key (openrouter (providers c))))]),
              (''openai'', JObj [(''apiKey'', JStr (api_key (openai (providers c))))]),
              (''anthropic'', JObj [(''apiKey'', JStr (api_key (anthropic (providers c))))]),
              (''deepseek'', JObj [(''apiKey'', JStr (api_key (deepseek (providers c))))]),
              (''gemini'', JObj [(''apiKey'', JStr (api_key (gemini (providers c))))]),
              (''zhipu'', JObj [(''apiKey'', JStr (api_key (zhipu (providers c))))])]),
       (''agents'',
        JObj [(''defaults'',
               JObj [(''model'', JStr (model (defaults (agents c)))),
                     (''workspace'', JStr (workspace (defaults (agents c))))])]),
       (''channels'',
        JObj ((''telegram'',
               JObj [(''enabled'', JBool (enabled (telegram (channels c)))),
                     (''allowFrom'', JArr (map JStr (allow_from (telegram (channels c))))),
                     (''token'', JStr (token (telegram (channels c))))])
              # (''whatsapp'',
                 JObj [(''enabled'', JBool (enabled (whatsapp (channels c)))),
                       (''allowFrom'', JArr (map JStr (allow_from (whatsapp (channels c)))))])
              # map (\<lambda>(n, flag). (snake_to_camel n, JObj [(''enabled'', JBool flag)]))
                    (other_sections (channels c)))),
       (''tools'',
        JObj [(''web'', JObj [(''search'', JObj [(''apiKey'', JStr (api_key (search (web (tools c)))))])])])]"
  by (simp add: model_dump_def dump_keyed_def snake_keys rename_keys_strings case_prod_beta)

lemma collision_free_strings: "list_all (collision_free f) (map JStr xs)"
  by (induction xs) simp_all

lemma collision_free_sections:
  "list_all (\<lambda>kv. collision_free f (snd kv)) (map (\<lambda>(n, flag). (n, JObj [(''enabled'', JBool flag)])) xs)"
  by (induction xs) auto

lemma collision_free_model_dump:
  "collision_free snake_to_camel (model_dump c) =
     distinct (''telegram'' # ''whatsapp'' # map (\<lambda>s. snake_to_camel (fst s)) (other_sections (channels c)))"
  by (simp add: model_dump_def dump_keyed_def snake_keys collision_free_strings
      collision_free_sections case_prod_beta comp_def)

text \<open>The dump determines the configuration.\<close>

lemma keyed_config_eq: "api_key a = api_key b \<Longrightarrow> a = (b :: keyed_config)"
  by (rule keyed_config.equality) simp_all

lemma sections_inj:
  "map (\<lambda>(n, flag). (n, JObj [(''enabled'', JBool flag)])) xs
   = map (\<lambda>(n, flag). (n, JObj [(''enabled'', JBool flag)])) ys \<Longrightarrow> xs = ys"
proof (induction xs arbitrary: ys)
  case Nil
  then show ?case by simp
next
  case (Cons x xs)
  then show ?case by (cases ys) (auto split: prod.splits)
qed

lemma strings_inj: "map JStr xs = map JStr ys \<Longrightarrow> xs = ys"
  by (induction xs arbitrary: ys) auto

lemma model_dump_inj:
  assumes "model_dump c = model_dump c'"
  shows "c = c'"
proof -
  from assms have p: "providers c = providers c'"
    by (intro providers_config.equality keyed_config_eq) (simp_all add: model_dump_def dump_keyed_def)
  from assms have a: "agents c = agents c'"
    by (intro agents_config.equality agent_defaults.equality) (simp_all add: model_dump_def)
  from assms have t: "tools c = tools c'"
    by (intro tools_config.equality web_tools_config.equality keyed_config_eq)
       (simp_all add: model_dump_def dump_keyed_def)
  from assms have o: "other_sections (channels c) = other_sections (channels c')"
    by (intro sections_inj) (simp add: model_dump_def)
  from assms have tg: "telegram (channels c) = telegram (channels c')"
    by (intro telegram_config.equality strings_inj) (simp_all add: model_dump_def)
  from assms have wa: "whatsapp (channels c) = whatsapp (channels c')"
    by (intro channel_config.equality strings_inj) (simp_all add: model_dump_def)
  from o tg wa have ch: "channels c = channels c'"
    by (intro channels_config.equality) simp_all
  from p a ch t show ?thesis by simp
qed

text \<open>
  The encoder on a small document, as \<^verbatim>\<open>json.dumps(..., indent=2)\<close> prints it, and the
  first and last lines of the text of a configuration.
\<close>

lemma json_dump_sample:
  \<open>json_dump (Some 2) f (JObj [(''a'', JInt 1), (''b'', JArr [JBool True, JNull, JStr ''x"y'']), (''c'', JObj [])])
   = ''{'' @ [CHR 0x0A] @ ''  "a": 1,'' @ [CHR 0x0A] @ ''  "b": ['' @ [CHR 0x0A] @ ''    true,'' @ [CHR 0x0A]
     @ ''    null,'' @ [CHR 0x0A] @ ''    "x'' @ [CHR 0x5C] @ ''"y"'' @ [CHR 0x0A] @ ''  ],'' @ [CHR 0x0A] @ ''  "c": {}'' @ [CHR 0x0A] @ ''}''\<close>
  by code_simp

lemma encode_keys:
  \<open>encode_str ''providers'' = ''"providers"''\<close>
  \<open>encode_str ''groq'' = ''"groq"''\<close>
  \<open>encode_str ''apiKey'' = ''"apiKey"''\<close>
  by code_simp+

lemma convert_to_camel_top:
  "\<exists>ps rest. convert_to_camel (model_dump config) =
     JObj ((''providers'', JObj ((''groq'', JObj [(''apiKey'', JStr (api_key (groq (providers config))))]) # ps)) # rest)
     \<and> ps \<noteq> [] \<and> rest \<noteq> []"
  by (simp add: model_dump_def dump_keyed_def snake_keys dict_of_items_def)

lemma join_Cons2: "ys \<noteq> [] \<Longrightarrow> join sep (x # ys) = x @ sep @ join sep ys"
  by (cases ys) simp_all

lemma saved_text_prefix:
  \<open>prefix (''{'' @ [CHR 0x0A] @ ''  "providers": {'' @ [CHR 0x0A] @ ''    "groq": {'' @ [CHR 0x0A]
           @ ''      "apiKey": '' @ encode_str (api_key (groq (providers config))))
     (json_dump (Some 2) f (convert_to_camel (model_dump config)))\<close>
proof -
  from convert_to_camel_top [of config] obtain ps rest where
    e: "convert_to_camel (model_dump config) =
     JObj ((''providers'', JObj ((''groq'', JObj [(''apiKey'', JStr (api_key (groq (providers config))))]) # ps)) # rest)"
    and n: "ps \<noteq> []" "rest \<noteq> []" by blast
  show ?thesis
    unfolding e using n
    by (simp add: json_dump_def join_Cons2 encode_keys newline_indent_def item_separator_def
        eval_nat_numeral)
qed

lemma saved_text_suffix:
  \<open>suffix ([CHR 0x0A] @ ''}'') (json_dump (Some 2) f (convert_to_camel (model_dump config)))\<close>
proof -
  from convert_to_camel_top [of config] obtain kvs where
    e: "convert_to_camel (model_dump config) = JObj kvs" and n: "kvs \<noteq> []" by blast
  show ?thesis
    unfolding e json_dump_def using n
    by (simp add: newline_indent_def suffix_def)
qed

text \<open>
  C8: \<open>save_config\<close> writes to the explicit path, or to \<^verbatim>\<open>.nanobot/config.json\<close> under
  the home directory when none is given.
  \<^item> When the location can be written (the target is a writable file, or it is missing
    and the nearest directory that exists above it allows new entries; nothing on the
    way is a file), the call succeeds: the file at the path then holds the text of
    \<^verbatim>\<open>json.dump(..., indent=2)\<close> for \<open>convert_to_camel\<close> of the full dump, every
    directory on the way to it exists (the missing ones have been made), and every
    location that is not on the way is as it was.
  \<^item> Otherwise the OSError of \<^verbatim>\<open>mkdir\<close> or \<^verbatim>\<open>open\<close> is the result of the call: there is
    no handler.
  \<^item> The dump omits no field: two configurations with the same dump are equal.
  \<^item> \<open>convert_to_camel\<close> replaces every key, at every depth, by its image under
    \<open>snake_to_camel\<close> whenever no two keys of one mapping have the same image; when the
    channel sections have distinct images the data written is the camelCase document
    displayed, with every field of the configuration in it.
  \<^item> The text is indented by two spaces for each level: it begins with the three
    opening lines displayed and ends with the closing brace on a line of its own.
\<close>

theorem save_config_writes:
  \<open>target_path home (Some p) = p \<and>
   target_path home None = home @ [''.nanobot'', ''config.json''] \<and>
   (writable_location (target_path home config_path) fs \<longrightarrow>
      (\<exists>fs'. save_config ext home config config_path fs = Inr fs' \<and>
         lookup fs' (target_path home config_path) =
           Some (FileT True
                  (json_dump (Some 2) (float_text ext) (convert_to_camel (model_dump config)))) \<and>
         (\<forall>q. strict_prefix q (target_path home config_path) \<longrightarrow> is_directory fs' q) \<and>
         (\<forall>q. \<not> prefix q (target_path home config_path) \<longrightarrow> lookup fs' q = lookup fs q))) \<and>
   (\<not> writable_location (target_path home config_path) fs \<longrightarrow>
      save_config ext home config config_path fs = Inl OSError) \<and>
   (model_dump config = model_dump config' \<longrightarrow> config = config') \<and>
   (collision_free snake_to_camel data \<longrightarrow>
      convert_to_camel data = rename_keys snake_to_camel data) \<and>
   (distinct (''telegram'' # ''whatsapp''
              # map (\<lambda>s. snake_to_camel (fst s)) (other_sections (channels config))) \<longrightarrow>
      convert_to_camel (model_dump config) =
        JObj
         [(''providers'',
           JObj [(''groq'', JObj [(''apiKey'', JStr (api_key (groq (providers config))))]),
                 (''openrouter'', JObj [(''apiKey'', JStr (api_key (openrouter (providers config))))]),
                 (''openai'', JObj [(''apiKey'', JStr (api_key (openai (providers config))))]),
                 (''anthropic'', JObj [(''apiKey'', JStr (api_key (anthropic (providers config))))]),
                 (''deepseek'', JObj [(''apiKey'', JStr (api_key (deepseek (providers config))))]),
                 (''gemini'', JObj [(''apiKey'', JStr (api_key (gemini (providers config))))]),
                 (''zhipu'', JObj [(''apiKey'', JStr (api_key (zhipu (providers config))))])]),
          (''agents'',
           JObj [(''defaults'',
                  JObj [(''model'', JStr (model (defaults (agents config)))),
                        (''workspace'', JStr (workspace (defaults (agents config))))])]),
          (''channels'',
           JObj ((''telegram'',
                  JObj [(''enabled'', JBool (enabled (telegram (channels config)))),
                        (''allowFrom'', JArr (map JStr (allow_from (telegram (channels config))))),
                        (''token'', JStr (token (telegram (channels config))))])
                 # (''whatsapp'',
                    JObj [(''enabled'', JBool (enabled (whatsapp (channels config)))),
                          (''allowFrom'', JArr (map JStr (allow_from (whatsapp (channels config)))))])
                 # map (\<lambda>(n, flag). (snake_to_camel n, JObj [(''enabled'', JBool flag)]))
                       (other_sections (channels config)))),
          (''tools'',
           JObj [(''web'',
                  JObj [(''search'',
                         JObj [(''apiKey'', JStr (api_key (search (web (tools config)))))])])])]) \<and>
   prefix (''{'' @ [CHR 0x0A] @ ''  "providers": {'' @ [CHR 0x0A] @ ''    "groq": {'' @ [CHR 0x0A]
           @ ''      "apiKey": '' @ encode_str (api_key (groq (providers config))))
     (json_dump (Some 2) (float_text ext) (convert_to_camel (model_dump config))) \<and>
   suffix ([CHR 0x0A] @ ''}'')
     (json_dump (Some 2) (float_text ext) (convert_to_camel (model_dump config)))\<close>
proof (intro conjI impI)
  show "target_path home (Some p) = p"
    by (simp add: target_path_def)
next
  show "target_path home None = home @ [''.nanobot'', ''config.json'']"
    by (simp add: target_path_def get_config_path_def)
next
  assume "writable_location (target_path home config_path) fs"
  then show "\<exists>fs'. save_config ext home config config_path fs = Inr fs' \<and>
         lookup fs' (target_path home config_path) =
           Some (FileT True
                  (json_dump (Some 2) (float_text ext) (convert_to_camel (model_dump config)))) \<and>
         (\<forall>q. strict_prefix q (target_path home config_path) \<longrightarrow> is_directory fs' q) \<and>
         (\<forall>q. \<not> prefix q (target_path home config_path) \<longrightarrow> lookup fs' q = lookup fs q)"
    unfolding save_config_store
    using store_spec [THEN conjunct1] by blast
next
  assume "\<not> writable_location (target_path home config_path) fs"
  then show "save_config ext home config config_path fs = Inl OSError"
    unfolding save_config_store
    using store_spec [THEN conjunct2] by blast
next
  assume "model_dump config = model_dump config'"
  then show "config = config'"
    by (rule model_dump_inj)
next
  assume "collision_free snake_to_camel data"
  then show "convert_to_camel data = rename_keys snake_to_camel data"
    by (rule convert_to_camel_rename)
next
  assume "distinct (''telegram'' # ''whatsapp''
              # map (\<lambda>s. snake_to_camel (fst s)) (other_sections (channels config)))"
  then have "collision_free snake_to_camel (model_dump config)"
    by (simp only: collision_free_model_dump)
  then have "convert_to_camel (model_dump config) = rename_keys snake_to_camel (model_dump config)"
    by (rule convert_to_camel_rename)
  then show "convert_to_camel (model_dump config) =
        JObj
         [(''providers'',
           JObj [(''groq'', JObj [(''apiKey'', JStr (api_key (groq (providers config))))]),
                 (''openrouter'', JObj [(''apiKey'', JStr (api_key (openrouter (providers config))))]),
                 (''openai'', JObj [(''apiKey'', JStr (api_key (openai (providers config))))]),
                 (''anthropic'', JObj [(''apiKey'', JStr (api_key (anthropic (providers config))))]),
                 (''deepseek'', JObj [(''apiKey'', JStr (api_key (deepseek (providers config))))]),
                 (''gemini'', JObj [(''apiKey'', JStr (api_key (gemini (providers config))))]),
                 (''zhipu'', JObj [(''apiKey'', JStr (api_key (zhipu (providers config))))])]),
          (''agents'',
           JObj [(''defaults'',
                  JObj [(''model'', JStr (model (defaults (agents config)))),
                        (''workspace'', JStr (workspace (defaults (agents config))))])]),
          (''channels'',
           JObj ((''telegram'',
                  JObj [(''enabled'', JBool (enabled (telegram (channels config)))),
                        (''allowFrom'', JArr (map JStr (allow_from (telegram (channels config))))),
                        (''token'', JStr (token (telegram (channels config))))])
                 # (''whatsapp'',
                    JObj [(''enabled'', JBool (enabled (whatsapp (channels config)))),
                          (''allowFrom'', JArr (map JStr (allow_from (whatsapp (channels config)))))])
                 # map (\<lambda>(n, flag). (snake_to_camel n, JObj [(''enabled'', JBool flag)]))
                       (other_sections (channels config)))),
          (''tools'',
           JObj [(''web'',
                  JObj [(''search'',
                         JObj [(''apiKey'', JStr (api_key (search (web (tools config)))))])])])]"
    by (simp only: rename_keys_model_dump)
next
  show \<open>prefix (''{'' @ [CHR 0x0A] @ ''  "providers": {'' @ [CHR 0x0A] @ ''    "groq": {'' @ [CHR 0x0A]
           @ ''      "apiKey": '' @ encode_str (api_key (groq (providers config))))
     (json_dump (Some 2) (float_text ext) (convert_to_camel (model_dump config)))\<close>
    by (rule saved_text_prefix)
next
  show \<open>suffix ([CHR 0x0A] @ ''}'')
     (json_dump (Some 2) (float_text ext) (convert_to_camel (model_dump config)))\<close>
    by (rule saved_text_suffix)
qed

theorem save_config_writes_witness:
  \<open>writable_location (target_path example_home None) example_tree \<and>
   save_config example_ext example_home example_config None example_tree =
     Inr (DirT True
           [(''home'',
             DirT True
              [(''user'',
                DirT True
                 [(''.nanobot'', DirT True [(''config.json'', FileT True example_text)])])]),
            (''readonly'', DirT False [])]) \<and>
   json_dump (Some 2) (float_text example_ext) (convert_to_camel (model_dump example_config))
     = example_text \<and>
   is_directory
     (DirT True
           [(''home'',
             DirT True
              [(''user'',
                DirT True
                 [(''.nanobot'', DirT True [(''config.json'', FileT True example_text)])])]),
            (''readonly'', DirT False [])]) [''home'', ''user'', ''.nanobot''] \<and>
   lookup
     (DirT True
           [(''home'',
             DirT True
              [(''user'',
                DirT True
                 [(''.nanobot'', DirT True [(''config.json'', FileT True example_text)])])]),
            (''readonly'', DirT False [])]) [''readonly''] = lookup example_tree [''readonly''] \<and>
   save_config example_ext example_home example_config (Some [''a'', ''b'', ''c.json''])
       example_tree =
     Inr (DirT True
           [(''home'', DirT True [(''user'', DirT True [])]),
            (''readonly'', DirT False []),
            (''a'', DirT True [(''b'', DirT True [(''c.json'', FileT True example_text)])])]) \<and>
   \<not> writable_location (target_path example_home (Some [''readonly'', ''x'', ''c.json'']))
       example_tree \<and>
   save_config example_ext example_home example_config (Some [''readonly'', ''x'', ''c.json''])
       example_tree = Inl OSError \<and>
   \<not> writable_location (target_path example_home (Some [''home'', ''user''])) example_tree \<and>
   save_config example_ext example_home example_config (Some [''home'', ''user''])
       example_tree = Inl OSError \<and>
   model_dump example_config \<noteq> model_dump from_cwd_config \<and>
   collision_free snake_to_camel (model_dump example_config) \<and>
   convert_to_camel (model_dump example_config)
     = rename_keys snake_to_camel (model_dump example_config) \<and>
   distinct (''telegram'' # ''whatsapp''
             # map (\<lambda>s. snake_to_camel (fst s)) (other_sections (channels example_config))) \<and>
   convert_to_camel (model_dump example_config) =
     JObj
      [(''providers'',
        JObj [(''groq'', JObj [(''apiKey'', JStr ''g0'')]),
              (''openrouter'', JObj [(''apiKey'', JStr '''')]),
              (''openai'', JObj [(''apiKey'', JStr '''')]),
              (''anthropic'', JObj [(''apiKey'', JStr '''')]),
              (''deepseek'', JObj [(''apiKey'', JStr '''')]),
              (''gemini'', JObj [(''apiKey'', JStr '''')]),
              (''zhipu'', JObj [(''apiKey'', JStr '''')])]),
       (''agents'',
        JObj [(''defaults'',
               JObj [(''model'', JStr ''some-model''),
                     (''workspace'', JStr ''~/.nanobot/workspace'')])]),
       (''channels'',
        JObj [(''telegram'',
               JObj [(''enabled'', JBool False),
                     (''allowFrom'', JArr [JStr ''alice'']),
                     (''token'', JStr ''old'')]),
              (''whatsapp'',
               JObj [(''enabled'', JBool False), (''allowFrom'', JArr [])])]),
       (''tools'', JObj [(''web'', JObj [(''search'', JObj [(''apiKey'', JStr '''')])])])]\<close>
proof -
  note home = save_config_writes
    [where home = example_home and config_path = None and fs = example_tree
       and ext = example_ext and config = example_config and config' = from_cwd_config
       and data = "model_dump example_config"]
  note deep = save_config_writes
    [where home = example_home and config_path = "Some [''a'', ''b'', ''c.json'']"
       and fs = example_tree and ext = example_ext and config = example_config]
  note readonly = save_config_writes
    [where home = example_home and config_path = "Some [''readonly'', ''x'', ''c.json'']"
       and fs = example_tree and ext = example_ext and config = example_config]
  note dir = save_config_writes
    [where home = example_home and config_path = "Some [''home'', ''user'']"
       and fs = example_tree and ext = example_ext and config = example_config]
  have w1: "writable_location (target_path example_home None) example_tree"
    by code_simp
  have w2: "\<not> writable_location (target_path example_home (Some [''readonly'', ''x'', ''c.json'']))
       example_tree"
    by code_simp
  have w3: "\<not> writable_location (target_path example_home (Some [''home'', ''user''])) example_tree"
    by code_simp
  have s1: "save_config example_ext example_home example_config None example_tree =
     Inr (DirT True
           [(''home'',
             DirT True
              [(''user'',
                DirT True
                 [(''.nanobot'', DirT True [(''config.json'', FileT True example_text)])])]),
            (''readonly'', DirT False [])])"
    by code_simp
  have s2: "save_config example_ext example_home example_config (Some [''a'', ''b'', ''c.json''])
       example_tree =
     Inr (DirT True
           [(''home'', DirT True [(''user'', DirT True [])]),
            (''readonly'', DirT False []),
            (''a'', DirT True [(''b'', DirT True [(''c.json'', FileT True example_text)])])])"
    by code_simp
  have p1: "target_path example_home None = [''home'', ''user'', ''.nanobot'', ''config.json'']"
    by code_simp
  from home [THEN conjunct2, THEN conjunct2, THEN conjunct1] w1 s1
  have anc: "\<forall>q. strict_prefix q (target_path example_home None) \<longrightarrow> is_directory
     (DirT True
           [(''home'',
             DirT True
              [(''user'',
                DirT True
                 [(''.nanobot'', DirT True [(''config.json'', FileT True example_text)])])]),
            (''readonly'', DirT False [])]) q"
    and fr: "\<forall>q. \<not> prefix q (target_path example_home None) \<longrightarrow> lookup
     (DirT True
           [(''home'',
             DirT True
              [(''user'',
                DirT True
                 [(''.nanobot'', DirT True [(''config.json'', FileT True example_text)])])]),
            (''readonly'', DirT False [])]) q = lookup example_tree q"
    by auto
  from anc have a1: "is_directory
     (DirT True
           [(''home'',
             DirT True
              [(''user'',
                DirT True
                 [(''.nanobot'', DirT True [(''config.json'', FileT True example_text)])])]),
            (''readonly'', DirT False [])]) [''home'', ''user'', ''.nanobot'']"
    unfolding p1 by simp
  have np: "\<not> prefix [''readonly''] (target_path example_home None)"
    unfolding p1 by simp
  from fr np have f1: "lookup
     (DirT True
           [(''home'',
             DirT True
              [(''user'',
                DirT True
                 [(''.nanobot'', DirT True [(''config.json'', FileT True example_text)])])]),
            (''readonly'', DirT False [])]) [''readonly''] = lookup example_tree [''readonly'']"
    by blast
  have ne: "example_config \<noteq> from_cwd_config"
    by (simp add: example_config_def from_cwd_config_def)
  from home [THEN conjunct2, THEN conjunct2, THEN conjunct2, THEN conjunct2, THEN conjunct1]
    ne
  have inj: "model_dump example_config \<noteq> model_dump from_cwd_config"
    by blast
  have cf: "collision_free snake_to_camel (model_dump example_config)"
    by code_simp
  from home [THEN conjunct2, THEN conjunct2, THEN conjunct2, THEN conjunct2, THEN conjunct2,
      THEN conjunct1] cf
  have rn: "convert_to_camel (model_dump example_config)
     = rename_keys snake_to_camel (model_dump example_config)"
    by blast
  from home [THEN conjunct2, THEN conjunct2, THEN conjunct1] w1 s1
  have "lookup (DirT True
           [(''home'',
             DirT True
              [(''user'',
                DirT True
                 [(''.nanobot'', DirT True [(''config.json'', FileT True example_text)])])]),
            (''readonly'', DirT False [])]) (target_path example_home None) =
        Some (FileT True (json_dump (Some 2) (float_text example_ext)
                (convert_to_camel (model_dump example_config))))"
    by auto
  then have t: "json_dump (Some 2) (float_text example_ext)
                (convert_to_camel (model_dump example_config)) = example_text"
    unfolding p1 by simp
  from readonly [THEN conjunct2, THEN conjunct2, THEN conjunct2, THEN conjunct1] w2
  have s3: "save_config example_ext example_home example_config
       (Some [''readonly'', ''x'', ''c.json'']) example_tree = Inl OSError"
    by simp
  from dir [THEN conjunct2, THEN conjunct2, THEN conjunct2, THEN conjunct1] w3
  have s4: "save_config example_ext example_home example_config
       (Some [''home'', ''user'']) example_tree = Inl OSError"
    by simp
  have d: "distinct (''telegram'' # ''whatsapp''
             # map (\<lambda>s. snake_to_camel (fst s)) (other_sections (channels example_config)))"
    by code_simp
  from deep [THEN conjunct2, THEN conjunct2, THEN conjunct2, THEN conjunct2, THEN conjunct2,
      THEN conjunct2, THEN conjunct1] d
  have c: "convert_to_camel (model_dump example_config) =
     JObj
      [(''providers'',
        JObj [(''groq'', JObj [(''apiKey'', JStr ''g0'')]),
              (''openrouter'', JObj [(''apiKey'', JStr '''')]),
              (''openai'', JObj [(''apiKey'', JStr '''')]),
              (''anthropic'', JObj [(''apiKey'', JStr '''')]),
              (''deepseek'', JObj [(''apiKey'', JStr '''')]),
              (''gemini'', JObj [(''apiKey'', JStr '''')]),
              (''zhipu'', JObj [(''apiKey'', JStr '''')])]),
       (''agents'',
        JObj [(''defaults'',
               JObj [(''model'', JStr ''some-model''),
                     (''workspace'', JStr ''~/.nanobot/workspace'')])]),
       (''channels'',
        JObj [(''telegram'',
               JObj [(''enabled'', JBool False),
                     (''allowFrom'', JArr [JStr ''alice'']),
                     (''token'', JStr ''old'')]),
              (''whatsapp'',
               JObj [(''enabled'', JBool False), (''allowFrom'', JArr [])])]),
       (''tools'', JObj [(''web'', JObj [(''search'', JObj [(''apiKey'', JStr '''')])])])]"
    by (simp add: example_config_def)
  from w1 s1 t a1 f1 s2 w2 s3 w3 s4 inj cf rn d c show ?thesis
    by (intro conjI)
qed

end
